theory Spec2Isabelle
  imports Complex_Main "HOL-Library.Multiset"
begin

section \<open>Data model\<close>

text \<open>
  Python \<open>str\<close> values that may hold Cyrillic text are lists of Unicode code points;
  dictionary keys and fixed ASCII literals are \<open>string\<close>. A Python \<open>float\<close> is
  modelled by the rational it denotes (rounding, infinities and NaN are outside the
  model); \<open>datetime\<close> values are seconds on the UTC time line; a UUID is a natural
  number.
\<close>

type_synonym ustr = "nat list"
type_synonym uuid = nat
type_synonym datetime = int

definition ascii :: "string \<Rightarrow> ustr" where
  "ascii s = map of_char s"

text \<open>
  Exceptions. \<open>ValueError\<close> carries its message; \<open>KeyError\<close> the missing key;
  \<open>ExternalError\<close> is whatever a collaborator raises (provider API, credential
  decryption, date parsing, text-to-speech, file storage), with its \<open>str(e)\<close>.
  \<open>str_exn\<close> is \<open>str(e)\<close>; for the exceptions that Python, SQLAlchemy or the database
  word themselves it gives the fixed part of the message.
\<close>

datatype exn =
    ValueError ustr | KeyError string | TypeError | AttributeError | OverflowError
  | ImportError | JSONDecodeError | APIError | ArgumentError | DatabaseError
  | IntegrityError | PendingRollbackError | ExternalError ustr | HTTP_404_NOT_FOUND

definition str_exn :: "exn \<Rightarrow> ustr" where
  "str_exn e =
     (case e of
        ValueError m \<Rightarrow> m
      | KeyError k \<Rightarrow> ascii ([CHR 0x27] @ k @ [CHR 0x27])
      | TypeError \<Rightarrow> ascii ''unsupported operand type''
      | AttributeError \<Rightarrow> ascii ''object has no attribute''
      | OverflowError \<Rightarrow> ascii ''int too large to convert to float''
      | ImportError \<Rightarrow> ascii ''cannot import name UserPreferences from app.models.user''
      | JSONDecodeError \<Rightarrow> ascii ''Expecting value''
      | APIError \<Rightarrow> ascii ''API error''
      | ArgumentError \<Rightarrow> ascii ''Only = and != operators can be used with None''
      | DatabaseError \<Rightarrow> ascii ''LIMIT must not be negative''
      | IntegrityError \<Rightarrow> ascii ''duplicate key value violates unique constraint''
      | PendingRollbackError \<Rightarrow> ascii ''This Session's transaction has been rolled back''
      | ExternalError m \<Rightarrow> m
      | HTTP_404_NOT_FOUND \<Rightarrow> ascii ''404'')"

text \<open>
  The conversion of a Python \<open>int\<close> to \<open>float\<close> (in \<open>float(i)\<close> and in
  \<open>i / 1000.0\<close>): an integer that rounds to a finite double converts, one of magnitude
  2^1024 - 2^970 or more raises OverflowError.
\<close>

definition float_limit :: int where
  "float_limit = 2 ^ 1024 - 2 ^ 970"

definition py_float_of_int :: "int \<Rightarrow> exn + rat" where
  "py_float_of_int i = (if \<bar>i\<bar> < float_limit then Inr (of_int i) else Inl OverflowError)"

text \<open>\<open>app/models/content.py\<close>\<close>

datatype ContentType = POST | ARTICLE | MESSAGE | NOTIFICATION

datatype CategoryType = PERSONAL | WORK | HOBBY | NEWS | IMPORTANT | OTHER

text \<open>
  The dictionary returned by both classifiers, which \<open>classify_pending_content\<close> stores
  field by field as a \<open>ContentClassification\<close> row. The \<open>topics\<close> entry is left out.
\<close>

record ContentClassification =
  category :: CategoryType
  relevance_score :: rat
  importance_score :: rat
  social_score :: rat
  personal_score :: rat

text \<open>
  \<open>item_metadata\<close> is the JSON column; the classifier reads only its
  \<open>public_metrics\<close> entry, a dictionary of integer counts. \<open>None\<close> stands for a
  metadata value without that key (or no metadata at all). The relationship
  \<open>classification\<close> (\<open>uselist=False\<close>, unique \<open>content_id\<close>) is the optional
  classification row of the item.
\<close>

record ContentItem =
  item_id :: uuid
  source_id :: uuid
  external_id :: ustr
  content_type :: ContentType
  title :: "ustr option"
  text_content :: "ustr option"
  url :: "ustr option"
  author :: "ustr option"
  published_at :: datetime
  public_metrics :: "(string \<times> int) list option"
  classification :: "ContentClassification option"

section \<open>Rule-based classifier (\<open>app/services/classification.py\<close>)\<close>

definition WORK_KEYWORDS :: "ustr list" where
  "WORK_KEYWORDS =
    [[1088, 1072, 1073, 1086, 1090, 1072],
     [1087, 1088, 1086, 1077, 1082, 1090],
     [1076, 1077, 1076, 1083, 1072, 1081, 1085],
     [1074, 1089, 1090, 1088, 1077, 1095, 1072],
     [1082, 1086, 1083, 1083, 1077, 1075, 1072],
     [1086, 1092, 1080, 1089],
     [1079, 1072, 1076, 1072, 1095, 1072],
     [1082, 1083, 1080, 1077, 1085, 1090],
     [1073, 1080, 1079, 1085, 1077, 1089],
     [1082, 1086, 1084, 1087, 1072, 1085, 1080, 1103],
     [1089, 1090, 1072, 1088, 1090, 1072, 1087]]"

definition PERSONAL_KEYWORDS :: "ustr list" where
  "PERSONAL_KEYWORDS =
    [[1089, 1077, 1084, 1100, 1103],
     [1076, 1088, 1091, 1079, 1100, 1103],
     [1076, 1077, 1085, 1100, 32, 1088, 1086, 1078, 1076, 1077, 1085, 1080, 1103],
     [1086, 1090, 1087, 1091, 1089, 1082],
     [1087, 1088, 1072, 1079, 1076, 1085, 1080, 1082],
     [1083, 1080, 1095, 1085, 1086, 1077],
     [1076, 1086, 1084],
     [1088, 1086, 1076, 1085, 1099, 1077]]"

definition HOBBY_KEYWORDS :: "ustr list" where
  "HOBBY_KEYWORDS =
    [[1093, 1086, 1073, 1073, 1080],
     [1089, 1087, 1086, 1088, 1090],
     [1084, 1091, 1079, 1099, 1082, 1072],
     [1082, 1080, 1085, 1086],
     [1082, 1085, 1080, 1075, 1072],
     [1080, 1075, 1088, 1072],
     [1087, 1091, 1090, 1077, 1096, 1077, 1089, 1090, 1074, 1080, 1077],
     [1092, 1086, 1090, 1086],
     [1088, 1080, 1089, 1086, 1074, 1072, 1085, 1080, 1077]]"

definition NEWS_KEYWORDS :: "ustr list" where
  "NEWS_KEYWORDS =
    [[1085, 1086, 1074, 1086, 1089, 1090, 1100],
     [1089, 1086, 1073, 1099, 1090, 1080, 1077],
     [1087, 1088, 1086, 1080, 1089, 1096, 1077, 1089, 1090, 1074, 1080, 1077],
     [1087, 1086, 1083, 1080, 1090, 1080, 1082, 1072],
     [1101, 1082, 1086, 1085, 1086, 1084, 1080, 1082, 1072],
     [1090, 1077, 1093, 1085, 1086, 1083, 1086, 1075, 1080, 1080],
     [1085, 1072, 1091, 1082, 1072],
     [1082, 1091, 1083, 1100, 1090, 1091, 1088, 1072]]"

definition IMPORTANT_KEYWORDS :: "ustr list" where
  "IMPORTANT_KEYWORDS =
    [[1074, 1072, 1078, 1085, 1086],
     [1089, 1088, 1086, 1095, 1085, 1086],
     [1082, 1088, 1080, 1090, 1080, 1095, 1085, 1086],
     [1074, 1085, 1080, 1084, 1072, 1085, 1080, 1077],
     [1086, 1073, 1103, 1079, 1072, 1090, 1077, 1083, 1100, 1085, 1086],
     [1085, 1077, 1086, 1073, 1093, 1086, 1076, 1080, 1084, 1086],
     [1090, 1088, 1077, 1073, 1091, 1077, 1090, 1089, 1103]]"

text \<open>
  \<open>str.lower()\<close> on one code point, for the Latin and Cyrillic capitals (A..Z,
  U+0400..U+040F, U+0410..U+042F). Capitals of other scripts are left as they are;
  none of them lowers to a letter of a keyword.
\<close>

definition lower_cp :: "nat \<Rightarrow> nat" where
  "lower_cp c =
     (if 65 \<le> c \<and> c \<le> 90 then c + 32
      else if 1040 \<le> c \<and> c \<le> 1071 then c + 32
      else if 1024 \<le> c \<and> c \<le> 1039 then c + 80
      else c)"

definition lower :: "ustr \<Rightarrow> ustr" where
  "lower s = map lower_cp s"

text \<open>\<open>keyword in text\<close>: the keyword occurs as a contiguous piece of the text.\<close>

fun starts_with :: "'a list \<Rightarrow> 'a list \<Rightarrow> bool" where
  "starts_with xs [] = True"
| "starts_with [] (k # ks) = False"
| "starts_with (x # xs) (k # ks) = (x = k \<and> starts_with xs ks)"

fun contains :: "'a list \<Rightarrow> 'a list \<Rightarrow> bool" where
  "contains [] k = (k = [])"
| "contains (x # xs) k = (starts_with (x # xs) k \<or> contains xs k)"

text \<open>\<open>(s or "")\<close>\<close>

definition or_empty :: "ustr option \<Rightarrow> ustr" where
  "or_empty s = (case s of None \<Rightarrow> [] | Some t \<Rightarrow> t)"

text \<open>\<open>f"{title} {text}"\<close> of the lowered title and text.\<close>

definition full_text :: "ContentItem \<Rightarrow> ustr" where
  "full_text content =
     lower (or_empty (title content)) @ [32] @ lower (or_empty (text_content content))"

definition matches :: "ustr \<Rightarrow> ustr list \<Rightarrow> nat" where
  "matches txt keywords = length (filter (contains txt) keywords)"

definition calculate_score :: "ustr \<Rightarrow> ustr list \<Rightarrow> rat" where
  "calculate_score txt keywords =
     (if keywords \<noteq> []
      then min (of_nat (matches txt keywords) / of_nat (length keywords) * 2) 1
      else 0)"

text \<open>\<open>dict.get(key, default)\<close> on an association list.\<close>

definition get_default :: "('k \<times> 'v) list \<Rightarrow> 'k \<Rightarrow> 'v \<Rightarrow> 'v" where
  "get_default d k dflt = (case map_of d k of None \<Rightarrow> dflt | Some v \<Rightarrow> v)"

text \<open>\<open>like_count + retweet_count * 2 + reply_count\<close> of the \<open>public_metrics\<close> entry.\<close>

definition total_engagement :: "(string \<times> int) list option \<Rightarrow> int" where
  "total_engagement pm =
     (let metrics = (case pm of None \<Rightarrow> [] | Some m \<Rightarrow> m);
          like_count = get_default metrics ''like_count'' 0;
          retweet_count = get_default metrics ''retweet_count'' 0;
          reply_count = get_default metrics ''reply_count'' 0
      in like_count + retweet_count * 2 + reply_count)"

text \<open>
  \<open>min(total_engagement / 1000.0, 1.0)\<close>: the division converts the integer to a float
  first, which can raise; there is no lower bound.
\<close>

definition calculate_social_score :: "(string \<times> int) list option \<Rightarrow> exn + rat" where
  "calculate_social_score pm =
     (case py_float_of_int (total_engagement pm) of
        Inl e \<Rightarrow> Inl e
      | Inr engagement \<Rightarrow> Inr (min (engagement / 1000) 1))"

definition calculate_personal_score :: "ContentItem \<Rightarrow> rat" where
  "calculate_personal_score content = 3 / 10"

text \<open>
  \<open>max(scores, key=scores.get)\<close>: the first key, in insertion order, whose value is
  largest; a later key replaces the current one only when its value is strictly greater.
\<close>

fun max_by_value :: "('k \<times> rat) \<Rightarrow> ('k \<times> rat) list \<Rightarrow> 'k" where
  "max_by_value best [] = fst best"
| "max_by_value best (kv # rest) =
     (if snd best < snd kv then max_by_value kv rest else max_by_value best rest)"

text \<open>
  \<open>RuleBasedClassifier.classify\<close>: the dictionary returned, or the exception that the
  social score raises.
\<close>

definition RuleBasedClassifier_classify :: "ContentItem \<Rightarrow> exn + ContentClassification" where
  "RuleBasedClassifier_classify content =
     (let txt = full_text content;
          work_score = calculate_score txt WORK_KEYWORDS;
          personal = calculate_score txt PERSONAL_KEYWORDS;
          hobby_score = calculate_score txt HOBBY_KEYWORDS;
          news_score = calculate_score txt NEWS_KEYWORDS;
          important_score = calculate_score txt IMPORTANT_KEYWORDS;
          cat = max_by_value (WORK, work_score)
                  [(PERSONAL, personal), (HOBBY, hobby_score), (NEWS, news_score),
                   (IMPORTANT, important_score), (OTHER, 1 / 10)];
          relevance = max (max (max work_score personal) hobby_score) news_score;
          importance = important_score * (1 / 2) + relevance * (1 / 2)
      in case calculate_social_score (public_metrics content) of
           Inl e \<Rightarrow> Inl e
         | Inr social \<Rightarrow>
             Inr \<lparr> category = cat,
                   relevance_score = min relevance 1,
                   importance_score = min importance 1,
                   social_score = social,
                   personal_score = calculate_personal_score content \<rparr>)"

section \<open>AI-backed classifier (\<open>app/services/classification.py\<close>)\<close>

text \<open>
  What \<open>json.loads\<close> returns: a JSON value. What the awaited OpenAI call followed by
  \<open>json.loads\<close> amounts to: the call raises (\<open>UpstreamError\<close>), the reply text is
  not JSON or is missing (\<open>MalformedReply\<close>), or the reply parses to a JSON value.
\<close>

datatype json =
    JNull | JBool bool | JInt int | JNum rat | JStr ustr
  | JList "json list" | JObj "(string \<times> json) list"

datatype ai_reply = UpstreamError | MalformedReply | Parsed json

text \<open>\<open>CategoryType(value)\<close>: the enum member with that string value, else ValueError.\<close>

definition CategoryType_of :: "json \<Rightarrow> exn + CategoryType" where
  "CategoryType_of v =
     (case v of
        JStr s \<Rightarrow>
          (if s = ascii ''personal'' then Inr PERSONAL
           else if s = ascii ''work'' then Inr WORK
           else if s = ascii ''hobby'' then Inr HOBBY
           else if s = ascii ''news'' then Inr NEWS
           else if s = ascii ''important'' then Inr IMPORTANT
           else if s = ascii ''other'' then Inr OTHER
           else Inl (ValueError (ascii ''is not a valid CategoryType'')))
      | _ \<Rightarrow> Inl (ValueError (ascii ''is not a valid CategoryType'')))"

text \<open>
  \<open>float(value)\<close>: a JSON float is itself, an integer is converted (and can be too
  large), a boolean is 1 or 0, a string is parsed
  (\<open>float_of_str\<close> is Python's parser of float literals, \<open>None\<close> where it raises),
  anything else raises TypeError.
\<close>

definition py_float :: "(ustr \<Rightarrow> rat option) \<Rightarrow> json \<Rightarrow> exn + rat" where
  "py_float float_of_str v =
     (case v of
        JInt i \<Rightarrow> py_float_of_int i
      | JNum r \<Rightarrow> Inr r
      | JBool b \<Rightarrow> Inr (if b then 1 else 0)
      | JStr s \<Rightarrow> (case float_of_str s of
                    None \<Rightarrow> Inl (ValueError (ascii ''could not convert string to float''))
                  | Some r \<Rightarrow> Inr r)
      | _ \<Rightarrow> Inl TypeError)"

text \<open>The body of the \<open>try\<close> block: the first exception raised, or the dictionary built.\<close>

definition AIClassifier_try ::
  "(ustr \<Rightarrow> rat option) \<Rightarrow> ai_reply \<Rightarrow> exn + ContentClassification" where
  "AIClassifier_try float_of_str reply =
     (case reply of
        UpstreamError \<Rightarrow> Inl APIError
      | MalformedReply \<Rightarrow> Inl JSONDecodeError
      | Parsed (JObj result) \<Rightarrow>
          (case CategoryType_of (get_default result ''category'' (JStr (ascii ''other''))) of
             Inl e \<Rightarrow> Inl e
           | Inr cat \<Rightarrow>
          (case py_float float_of_str (get_default result ''relevance_score'' (JNum (1 / 2))) of
             Inl e \<Rightarrow> Inl e
           | Inr rel \<Rightarrow>
          (case py_float float_of_str (get_default result ''importance_score'' (JNum (1 / 2))) of
             Inl e \<Rightarrow> Inl e
           | Inr imp \<Rightarrow>
          (case py_float float_of_str (get_default result ''social_score'' (JNum (3 / 10))) of
             Inl e \<Rightarrow> Inl e
           | Inr soc \<Rightarrow>
          (case py_float float_of_str (get_default result ''personal_score'' (JNum (3 / 10))) of
             Inl e \<Rightarrow> Inl e
           | Inr pers \<Rightarrow>
               Inr \<lparr> category = cat, relevance_score = rel, importance_score = imp,
                     social_score = soc, personal_score = pers \<rparr>)))))
      | Parsed _ \<Rightarrow> Inl AttributeError)"

text \<open>
  \<open>except Exception\<close>: fall back to the rule-based classifier. The fallback runs inside
  the handler, so an exception it raises leaves \<open>classify\<close>.
\<close>

definition AIClassifier_classify ::
  "(ustr \<Rightarrow> rat option) \<Rightarrow> ai_reply \<Rightarrow> ContentItem \<Rightarrow> exn + ContentClassification" where
  "AIClassifier_classify float_of_str reply content =
     (case AIClassifier_try float_of_str reply of
        Inr c \<Rightarrow> Inr c
      | Inl e \<Rightarrow> RuleBasedClassifier_classify content)"

section \<open>Users, sources and the store\<close>

datatype SourceType = TWITTER | FACEBOOK | INSTAGRAM | TELEGRAM | RSS | EMAIL

datatype SyncStatus = SUCCESS | FAILED_SYNC | PARTIAL

datatype BriefingStatus = PENDING | GENERATING | READY | DELIVERED | FAILED

text \<open>
  \<open>credentials\<close> is \<open>None\<close> when the column is empty; \<open>feed_url\<close> is the
  \<open>"feed_url"\<close> entry of \<open>settings\<close>, \<open>None\<close> when settings are empty or lack it.
\<close>

record DataSource =
  ds_id :: uuid
  ds_user_id :: uuid
  source_type :: SourceType
  credentials :: "(string \<times> ustr) list option"
  is_active :: bool
  last_sync_at :: "datetime option"
  sync_frequency_minutes :: int
  feed_url :: "ustr option"

record User =
  user_id :: uuid
  user_is_active :: bool
  deleted_at :: "datetime option"

record UserPreferences =
  up_user_id :: uuid
  min_relevance_score :: "rat option"
  max_items_per_briefing :: int

record Briefing =
  b_id :: uuid
  b_user_id :: uuid
  b_date :: int
  b_status :: BriefingStatus
  text_summary :: "ustr option"
  audio_file_url :: "ustr option"
  audio_duration_seconds :: "int option"
  content_items_count :: int
  generated_at :: "datetime option"
  delivered_at :: "datetime option"
  b_error_message :: "ustr option"

record BriefingContent =
  bc_briefing_id :: uuid
  bc_content_id :: uuid
  bc_order :: nat
  included_reason :: rat

record SyncLog =
  sl_source_id :: uuid
  sl_status :: SyncStatus
  items_fetched :: nat
  items_new :: nat
  items_updated :: nat
  sl_error_message :: "ustr option"
  started_at :: datetime
  completed_at :: datetime

text \<open>The tables of the database, each as the list of its rows.\<close>

record database =
  users :: "User list"
  user_preferences :: "UserPreferences list"
  data_sources :: "DataSource list"
  content_items :: "ContentItem list"
  briefings :: "Briefing list"
  briefing_content :: "BriefingContent list"
  sync_logs :: "SyncLog list"

text \<open>\<open>query.filter(...).first()\<close>\<close>

definition first :: "('a \<Rightarrow> bool) \<Rightarrow> 'a list \<Rightarrow> 'a option" where
  "first P rows = (case filter P rows of [] \<Rightarrow> None | r # _ \<Rightarrow> Some r)"

text \<open>\<open>app/core/config.py\<close>\<close>

definition MAX_CONTENT_ITEMS_PER_BRIEFING :: int where
  "MAX_CONTENT_ITEMS_PER_BRIEFING = 10"

definition MIN_RELEVANCE_SCORE :: rat where
  "MIN_RELEVANCE_SCORE = 3 / 10"

definition BRIEFING_DURATION_SECONDS :: int where
  "BRIEFING_DURATION_SECONDS = 120"

section \<open>Briefing selector (\<open>app/services/briefing_generator.py\<close>)\<close>

definition relevance_of :: "ContentItem \<Rightarrow> rat" where
  "relevance_of i = (case classification i of None \<Rightarrow> 0 | Some c \<Rightarrow> relevance_score c)"

definition importance_of :: "ContentItem \<Rightarrow> rat" where
  "importance_of i = (case classification i of None \<Rightarrow> 0 | Some c \<Rightarrow> importance_score c)"

text \<open>
  \<open>ORDER BY relevance_score DESC, importance_score DESC\<close>: \<open>ranks_before a b\<close> says
  that \<open>a\<close> may stand before \<open>b\<close>. The database leaves the order of rows with equal
  keys open; the model keeps them in table order.
\<close>

definition ranks_before :: "ContentItem \<Rightarrow> ContentItem \<Rightarrow> bool" where
  "ranks_before a b \<longleftrightarrow>
     relevance_of b < relevance_of a
     \<or> (relevance_of a = relevance_of b \<and> importance_of b \<le> importance_of a)"

fun insert_ranked :: "ContentItem \<Rightarrow> ContentItem list \<Rightarrow> ContentItem list" where
  "insert_ranked a [] = [a]"
| "insert_ranked a (b # bs) =
     (if ranks_before a b then a # b # bs else b # insert_ranked a bs)"

fun order_by_rank :: "ContentItem list \<Rightarrow> ContentItem list" where
  "order_by_rank [] = []"
| "order_by_rank (a # as) = insert_ranked a (order_by_rank as)"

text \<open>\<open>max_items or settings.MAX_CONTENT_ITEMS_PER_BRIEFING\<close>: None and 0 are falsy.\<close>

definition effective_max_items :: "int option \<Rightarrow> int" where
  "effective_max_items max_items =
     (case max_items of
        None \<Rightarrow> MAX_CONTENT_ITEMS_PER_BRIEFING
      | Some m \<Rightarrow> if m = 0 then MAX_CONTENT_ITEMS_PER_BRIEFING else m)"

definition min_relevance_for :: "database \<Rightarrow> User \<Rightarrow> rat option" where
  "min_relevance_for db user =
     (case first (\<lambda>p. up_user_id p = user_id user) (user_preferences db) of
        None \<Rightarrow> Some MIN_RELEVANCE_SCORE
      | Some preferences \<Rightarrow> min_relevance_score preferences)"

text \<open>
  The rows the query's join and filter keep for a threshold \<open>min_relevance\<close>: items of
  the user's active sources, published at or after the cutoff, with a classification whose
  relevance is at least the threshold.
\<close>

definition candidates :: "database \<Rightarrow> User \<Rightarrow> datetime \<Rightarrow> rat \<Rightarrow> ContentItem list" where
  "candidates db user now min_relevance =
     (let cutoff_time = now - 24 * 3600;
          sources = filter (\<lambda>s. ds_user_id s = user_id user \<and> is_active s) (data_sources db);
          source_ids = map ds_id sources
      in filter (\<lambda>i. source_id i \<in> set source_ids
                     \<and> cutoff_time \<le> published_at i
                     \<and> (case classification i of
                          None \<Rightarrow> False
                        | Some c \<Rightarrow> min_relevance \<le> relevance_score c))
           (content_items db))"

text \<open>
  The statements of \<open>select_content_for_briefing\<close> that follow its two imports. A NULL
  \<open>min_relevance_score\<close> makes \<open>relevance_score >= min_relevance\<close> raise ArgumentError
  while the query is built; \<open>.limit(max_items * 2)\<close> with a negative count is rejected
  by the database. Otherwise the rows are cut to \<open>max_items * 2\<close>, the ones with a
  classification kept, and \<open>ranked_content[:max_items]\<close> returned.
\<close>

definition select_body ::
  "database \<Rightarrow> User \<Rightarrow> datetime \<Rightarrow> int option \<Rightarrow> exn + ContentItem list" where
  "select_body db user now max_items =
     (let n = effective_max_items max_items in
      case min_relevance_for db user of
        None \<Rightarrow> Inl ArgumentError
      | Some min_relevance \<Rightarrow>
          if n * 2 < 0 then Inl DatabaseError
          else
            let content = take (nat (n * 2))
                            (order_by_rank (candidates db user now min_relevance));
                ranked_content = filter (\<lambda>item. classification item \<noteq> None) content
            in Inr (take (nat n) ranked_content))"

text \<open>
  \<open>from app.models.user import UserPreferences\<close>, the second statement of the function:
  \<open>app/models/user.py\<close> defines \<open>SubscriptionStatus\<close> and \<open>User\<close> and nothing named
  \<open>UserPreferences\<close> (the class is defined in \<open>app/models/preferences.py\<close>), so the
  statement raises ImportError each time it runs.
\<close>

definition import_UserPreferences_from_user :: "exn + unit" where
  "import_UserPreferences_from_user = Inl ImportError"

text \<open>\<open>BriefingGenerator.select_content_for_briefing\<close>: the import, then the rest.\<close>

definition select_content_for_briefing ::
  "database \<Rightarrow> User \<Rightarrow> datetime \<Rightarrow> int option \<Rightarrow> exn + ContentItem list" where
  "select_content_for_briefing db user now max_items =
     (case import_UserPreferences_from_user of
        Inl e \<Rightarrow> Inl e
      | Inr _ \<Rightarrow> select_body db user now max_items)"

section \<open>Writing to the store\<close>

text \<open>
  A new primary key is one that no row of the table has (\<open>uuid.uuid4\<close>); the model
  takes the successor of the largest key in use.
\<close>

definition fresh_id :: "uuid list \<Rightarrow> uuid" where
  "fresh_id ids = Suc (fold max ids 0)"

text \<open>
  A commit that inserts rows fails with IntegrityError when a new row repeats the unique
  key of a stored row or of another new row.
\<close>

definition insert_ok :: "('a \<Rightarrow> 'k) \<Rightarrow> 'a list \<Rightarrow> 'a list \<Rightarrow> bool" where
  "insert_ok key stored new \<longleftrightarrow>
     distinct (map key new) \<and> list_all (\<lambda>r. key r \<notin> set (map key stored)) new"

text \<open>An UPDATE of the row with the briefing's primary key.\<close>

definition update_briefing :: "Briefing \<Rightarrow> database \<Rightarrow> database" where
  "update_briefing b db =
     db\<lparr>briefings := map (\<lambda>r. if b_id r = b_id b then b else r) (briefings db)\<rparr>"

definition add_briefing :: "Briefing \<Rightarrow> database \<Rightarrow> database" where
  "add_briefing b db = db\<lparr>briefings := briefings db @ [b]\<rparr>"

text \<open>\<open>Briefing(user_id=..., date=..., status=GENERATING)\<close> with the column defaults.\<close>

definition new_briefing :: "database \<Rightarrow> uuid \<Rightarrow> int \<Rightarrow> Briefing" where
  "new_briefing db uid target_date =
     \<lparr> b_id = fresh_id (map b_id (briefings db)),
       b_user_id = uid,
       b_date = target_date,
       b_status = GENERATING,
       text_summary = None,
       audio_file_url = None,
       audio_duration_seconds = None,
       content_items_count = 0,
       generated_at = None,
       delivered_at = None,
       b_error_message = None \<rparr>"

definition existing_briefing :: "database \<Rightarrow> uuid \<Rightarrow> int \<Rightarrow> Briefing option" where
  "existing_briefing db uid target_date =
     first (\<lambda>b. b_user_id b = uid \<and> b_date b = target_date) (briefings db)"

section \<open>Briefing generation task (\<open>app/tasks/briefing.py\<close>)\<close>

text \<open>
  The \<open>briefing_date\<close> argument: absent, an ISO date (here the day it denotes), or a
  string \<open>datetime.fromisoformat\<close> rejects.
\<close>

datatype briefing_date = NoDate | IsoDate int | BadDate

text \<open>
  What the task takes from outside the store: the clock, the text returned by
  \<open>generate_text_summary\<close> (which has its own fallback and does not raise), and the
  outcome of \<open>generate_audio\<close> followed by \<open>save_audio_file\<close>: the URL of the stored
  audio, or the exception one of them raised.
\<close>

record gen_env =
  utcnow :: datetime
  today :: int
  summary :: ustr
  audio_url :: "exn + ustr"

definition no_content_message :: ustr where
  "no_content_message = ascii ''No content available for briefing''"

text \<open>The \<open>except Exception\<close> branch of the inner \<open>try\<close>: FAILED, \<open>str(e)\<close>, commit.\<close>

definition mark_failed :: "database \<Rightarrow> Briefing \<Rightarrow> ustr \<Rightarrow> database" where
  "mark_failed db briefing msg =
     update_briefing (briefing\<lparr>b_status := FAILED, b_error_message := Some msg\<rparr>) db"

text \<open>\<open>enumerate(content_items, 1)\<close> turned into the link rows.\<close>

definition make_links :: "uuid \<Rightarrow> ContentItem list \<Rightarrow> BriefingContent list" where
  "make_links bid items =
     map (\<lambda>(order, item).
            \<lparr> bc_briefing_id = bid, bc_content_id = item_id item, bc_order = order,
              included_reason = relevance_of item \<rparr>)
         (zip [1 ..< Suc (length items)] items)"

definition link_key :: "BriefingContent \<Rightarrow> uuid \<times> uuid" where
  "link_key l = (bc_briefing_id l, bc_content_id l)"

text \<open>
  The inner \<open>try\<close> of the task, entered after the GENERATING state was committed as
  \<open>db\<close>: the store afterwards and the value the task returns. An exception of the
  selector, the audio rendering or the storage reaches the handler, which records FAILED
  with \<open>str(e)\<close> and commits. When the commit of the READY state and the link rows fails
  with IntegrityError, the handler's own commit raises on the session that awaits a
  rollback; the outer handler rolls back, the task returns None and the row stays as
  committed before, GENERATING.
\<close>

definition run_generation ::
  "gen_env \<Rightarrow> database \<Rightarrow> User \<Rightarrow> Briefing \<Rightarrow> database \<times> uuid option" where
  "run_generation env db user briefing =
     (case select_content_for_briefing db user (utcnow env) None of
        Inl e \<Rightarrow> (mark_failed db briefing (str_exn e), Some (b_id briefing))
      | Inr items \<Rightarrow>
          if items = [] then (mark_failed db briefing no_content_message, Some (b_id briefing))
          else
            (case audio_url env of
               Inl e \<Rightarrow> (mark_failed db briefing (str_exn e), Some (b_id briefing))
             | Inr stored_url \<Rightarrow>
                 let done = briefing\<lparr> text_summary := Some (summary env),
                                       audio_file_url := Some stored_url,
                                       audio_duration_seconds := Some BRIEFING_DURATION_SECONDS,
                                       content_items_count := int (length items),
                                       generated_at := Some (utcnow env),
                                       b_status := READY \<rparr>;
                     links = make_links (b_id briefing) items
                 in if insert_ok link_key (briefing_content db) links
                    then ((update_briefing done db)
                            \<lparr>briefing_content := briefing_content db @ links\<rparr>,
                          Some (b_id briefing))
                    else (db, None)))"

text \<open>
  \<open>generate_briefing\<close>: the store afterwards and the value returned (the briefing id, or
  None on the early return for a missing or inactive user and after the outer handler's
  rollback).
\<close>

definition generate_briefing ::
  "gen_env \<Rightarrow> database \<Rightarrow> uuid \<Rightarrow> briefing_date \<Rightarrow> database \<times> uuid option" where
  "generate_briefing env db uid date_arg =
     (case first (\<lambda>u. user_id u = uid \<and> deleted_at u = None) (users db) of
        None \<Rightarrow> (db, None)
      | Some user \<Rightarrow>
          if \<not> user_is_active user then (db, None)
          else
            (case date_arg of
               BadDate \<Rightarrow> (db, None)
             | _ \<Rightarrow>
                 let target_date = (case date_arg of IsoDate d \<Rightarrow> d | _ \<Rightarrow> today env) in
                 (case existing_briefing db (user_id user) target_date of
                    Some existing \<Rightarrow>
                      if b_status existing = DELIVERED then (db, Some (b_id existing))
                      else
                        let briefing = existing\<lparr>b_status := GENERATING\<rparr>
                        in run_generation env (update_briefing briefing db) user briefing
                  | None \<Rightarrow>
                      let briefing = new_briefing db (user_id user) target_date
                      in run_generation env (add_briefing briefing db) user briefing)))"

section \<open>Briefing endpoints (\<open>app/api/briefings.py\<close>)\<close>

text \<open>
  \<open>trigger_briefing_generation\<close> for the authenticated user: the store afterwards, the
  briefing returned, and whether a \<open>generate_briefing\<close> task was queued.
\<close>

definition trigger_briefing_generation ::
  "database \<Rightarrow> int \<Rightarrow> User \<Rightarrow> int option \<Rightarrow> database \<times> Briefing \<times> bool" where
  "trigger_briefing_generation db today_date current_user target =
     (let target_date = (case target of None \<Rightarrow> today_date | Some d \<Rightarrow> d) in
      case existing_briefing db (user_id current_user) target_date of
        Some existing \<Rightarrow>
          if b_status existing = DELIVERED then (db, existing, False)
          else
            let briefing = existing\<lparr>b_status := GENERATING\<rparr>
            in (update_briefing briefing db, briefing, True)
      | None \<Rightarrow>
          let briefing = new_briefing db (user_id current_user) target_date
          in (add_briefing briefing db, briefing, True))"


section \<open>Source adapters as seen by the sync tasks\<close>

text \<open>
  The provider items, with the fields the sync functions read. A creation time that the
  code parses with \<open>datetime.fromisoformat\<close> is given as the outcome of that call:
  the datetime, or the exception raised on a missing or malformed value.
\<close>

record tweet =
  tw_id :: ustr
  tw_text :: "ustr option"
  tw_created_at :: "exn + datetime"
  tw_public_metrics :: "(string \<times> int) list option"

text \<open>One dictionary of the list built by \<open>RSSParser.parse_feed\<close>.\<close>

record feed_item =
  fi_external_id :: ustr
  fi_title :: ustr
  fi_text_content :: ustr
  fi_url :: ustr
  fi_author :: ustr
  fi_published_at :: datetime

text \<open>
  A Telegram update is its \<open>message\<close> entry, \<open>None\<close> when the update has none (or an
  empty one).
\<close>

record tg_message =
  tg_message_id :: ustr
  tg_date :: "datetime option"
  tg_text :: ustr
  tg_username :: ustr

type_synonym tg_update = "tg_message option"

text \<open>\<open>created_time\<close> and \<open>timestamp\<close> are \<open>None\<close> when absent or empty.\<close>

record fb_post =
  fb_id :: ustr
  fb_message :: ustr
  fb_created_time :: "(exn + datetime) option"
  fb_from_name :: ustr

record ig_media =
  ig_id :: ustr
  ig_caption :: "ustr option"
  ig_timestamp :: "(exn + datetime) option"
  ig_permalink :: ustr
  ig_username :: ustr

text \<open>
  The collaborators: credential decryption, and each client's fetch with the arguments
  the sync functions pass (token, then the window). \<open>feedparser_entries\<close> is the body of
  the \<open>try\<close> in \<open>parse_feed\<close>: the items built from the feed, or the exception raised
  while fetching or parsing it.
\<close>

record providers =
  decrypt_data :: "ustr \<Rightarrow> exn + ustr"
  get_user_timeline :: "ustr \<Rightarrow> ustr option \<Rightarrow> datetime \<Rightarrow> exn + tweet list"
  feedparser_entries :: "ustr \<Rightarrow> exn + feed_item list"
  get_updates :: "ustr \<Rightarrow> int option \<Rightarrow> exn + tg_update list"
  get_user_feed :: "ustr \<Rightarrow> datetime \<Rightarrow> exn + fb_post list"
  get_user_media :: "ustr \<Rightarrow> exn + ig_media list"

section \<open>RSS parser (\<open>app/services/rss_parser.py\<close>)\<close>

text \<open>\<open>except Exception\<close>: the error is logged and an empty list returned.\<close>

definition parse_feed :: "providers \<Rightarrow> ustr \<Rightarrow> feed_item list" where
  "parse_feed P feed =
     (case feedparser_entries P feed of Inl e \<Rightarrow> [] | Inr items \<Rightarrow> items)"

section \<open>Sync tasks (\<open>app/tasks/sync.py\<close>)\<close>

text \<open>
  The SQLAlchemy session (\<open>autoflush=False\<close>): the committed store, which queries read;
  the store as it will be once the changes made to loaded objects and the added rows are
  committed; the content rows added since the last commit; and whether a flush has failed
  in it, after which every commit raises until \<open>rollback()\<close> is called.
\<close>

record session =
  committed :: database
  pending :: database
  new_items :: "ContentItem list"
  needs_rollback :: bool

definition content_key :: "ContentItem \<Rightarrow> uuid \<times> ustr" where
  "content_key i = (source_id i, external_id i)"

definition rollback :: "session \<Rightarrow> session" where
  "rollback s =
     \<lparr> committed = committed s, pending = committed s, new_items = [],
       needs_rollback = False \<rparr>"

text \<open>
  \<open>db.commit()\<close>: the unique constraint on (source_id, external_id) is checked for the
  added rows; on a violation IntegrityError is raised, nothing is written and the session
  awaits a rollback.
\<close>

definition commit :: "session \<Rightarrow> session \<times> (exn + unit)" where
  "commit s =
     (if needs_rollback s then (s, Inl PendingRollbackError)
      else if insert_ok content_key (content_items (committed s)) (new_items s)
      then (\<lparr> committed = pending s, pending = pending s, new_items = [],
              needs_rollback = False \<rparr>, Inr ())
      else (s\<lparr>needs_rollback := True\<rparr>, Inl IntegrityError))"

text \<open>The lookup of an existing row by (source_id, external_id), read from the store.\<close>

definition existing_item :: "session \<Rightarrow> DataSource \<Rightarrow> ustr \<Rightarrow> ContentItem option" where
  "existing_item s source ext =
     first (\<lambda>i. source_id i = ds_id source \<and> external_id i = ext)
       (content_items (committed s))"

text \<open>Assignments to the attributes of a loaded row.\<close>

definition modify_item :: "uuid \<Rightarrow> (ContentItem \<Rightarrow> ContentItem) \<Rightarrow> session \<Rightarrow> session" where
  "modify_item k f s =
     s\<lparr>pending := (pending s)\<lparr>content_items :=
          map (\<lambda>i. if item_id i = k then f i else i) (content_items (pending s))\<rparr>\<rparr>"

text \<open>\<open>db.add(new_item)\<close>\<close>

definition add_item :: "ContentItem \<Rightarrow> session \<Rightarrow> session" where
  "add_item i s =
     s\<lparr>pending := (pending s)\<lparr>content_items := content_items (pending s) @ [i]\<rparr>,
       new_items := new_items s @ [i]\<rparr>"

definition next_item_id :: "session \<Rightarrow> uuid" where
  "next_item_id s = fresh_id (map item_id (content_items (pending s)))"

text \<open>\<open>if not source.credentials: raise ValueError(...)\<close> (None and the empty dictionary).\<close>

definition require_credentials :: "string \<Rightarrow> DataSource \<Rightarrow> exn + (string \<times> ustr) list" where
  "require_credentials provider_name source =
     (case credentials source of
        None \<Rightarrow>
          Inl (ValueError (ascii (''No credentials found for '' @ provider_name @ '' source'')))
      | Some creds \<Rightarrow>
          if creds = []
          then Inl (ValueError (ascii (''No credentials found for '' @ provider_name @ '' source'')))
          else Inr creds)"

text \<open>\<open>decrypt_data(credentials[key])\<close>\<close>

definition decrypted :: "providers \<Rightarrow> (string \<times> ustr) list \<Rightarrow> string \<Rightarrow> exn + ustr" where
  "decrypted P creds key =
     (case map_of creds key of None \<Rightarrow> Inl (KeyError key) | Some enc \<Rightarrow> decrypt_data P enc)"

text \<open>
  "Get last sync time or default to 24 hours ago": the start of the window asked of the
  Twitter and Facebook clients, from the source object as it is when the function runs.
\<close>

definition window_start :: "DataSource \<Rightarrow> datetime \<Rightarrow> datetime" where
  "window_start source now =
     (case last_sync_at source of Some last_sync \<Rightarrow> last_sync | None \<Rightarrow> now - 24 * 3600)"

text \<open>
  The loops over the fetched items. Each returns the session and either the numbers of new
  and updated items or the exception that ended the loop.
\<close>

fun twitter_items ::
  "DataSource \<Rightarrow> ustr option \<Rightarrow> tweet list \<Rightarrow> session \<Rightarrow> nat \<Rightarrow> nat
     \<Rightarrow> session \<times> (exn + nat \<times> nat)" where
  "twitter_items source username [] s n u = (s, Inr (n, u))"
| "twitter_items source username (t # ts) s n u =
     (case existing_item s source (tw_id t) of
        Some found \<Rightarrow>
          twitter_items source username ts
            (modify_item (item_id found)
               (\<lambda>i. i\<lparr> text_content := tw_text t,
                        public_metrics :=
                          Some (case tw_public_metrics t of None \<Rightarrow> [] | Some m \<Rightarrow> m) \<rparr>) s)
            n (Suc u)
      | None \<Rightarrow>
          (case tw_created_at t of
             Inl e \<Rightarrow> (s, Inl e)
           | Inr published \<Rightarrow>
               twitter_items source username ts
                 (add_item
                    \<lparr> item_id = next_item_id s,
                      source_id = ds_id source,
                      external_id = tw_id t,
                      content_type = POST,
                      title = None,
                      text_content = tw_text t,
                      url = Some (ascii ''https://twitter.com/i/web/status/'' @ tw_id t),
                      author = username,
                      published_at = published,
                      public_metrics =
                        Some (case tw_public_metrics t of None \<Rightarrow> [] | Some m \<Rightarrow> m),
                      classification = None \<rparr> s)
                 (Suc n) u))"

fun rss_items ::
  "DataSource \<Rightarrow> feed_item list \<Rightarrow> session \<Rightarrow> nat \<Rightarrow> nat \<Rightarrow> session \<times> (exn + nat \<times> nat)" where
  "rss_items source [] s n u = (s, Inr (n, u))"
| "rss_items source (d # ds) s n u =
     (case existing_item s source (fi_external_id d) of
        Some found \<Rightarrow>
          rss_items source ds
            (modify_item (item_id found)
               (\<lambda>i. i\<lparr> title := Some (fi_title d),
                        text_content := Some (fi_text_content d),
                        url := Some (fi_url d),
                        author := Some (fi_author d),
                        public_metrics := None \<rparr>) s)
            n (Suc u)
      | None \<Rightarrow>
          rss_items source ds
            (add_item
               \<lparr> item_id = next_item_id s,
                 source_id = ds_id source,
                 external_id = fi_external_id d,
                 content_type = ARTICLE,
                 title = Some (fi_title d),
                 text_content = Some (fi_text_content d),
                 url = Some (fi_url d),
                 author = Some (fi_author d),
                 published_at = fi_published_at d,
                 public_metrics = None,
                 classification = None \<rparr> s)
            (Suc n) u)"

fun telegram_items ::
  "DataSource \<Rightarrow> datetime \<Rightarrow> tg_update list \<Rightarrow> session \<Rightarrow> nat \<Rightarrow> nat
     \<Rightarrow> session \<times> (exn + nat \<times> nat)" where
  "telegram_items source now [] s n u = (s, Inr (n, u))"
| "telegram_items source now (None # ups) s n u = telegram_items source now ups s n u"
| "telegram_items source now (Some m # ups) s n u =
     (case existing_item s source (tg_message_id m) of
        Some found \<Rightarrow> telegram_items source now ups s n (Suc u)
      | None \<Rightarrow>
          telegram_items source now ups
            (add_item
               \<lparr> item_id = next_item_id s,
                 source_id = ds_id source,
                 external_id = tg_message_id m,
                 content_type = MESSAGE,
                 title = None,
                 text_content = Some (tg_text m),
                 url = None,
                 author = Some (tg_username m),
                 published_at = (case tg_date m of Some d \<Rightarrow> d | None \<Rightarrow> now),
                 public_metrics = None,
                 classification = None \<rparr> s)
            (Suc n) u)"

fun facebook_items ::
  "DataSource \<Rightarrow> datetime \<Rightarrow> fb_post list \<Rightarrow> session \<Rightarrow> nat \<Rightarrow> nat
     \<Rightarrow> session \<times> (exn + nat \<times> nat)" where
  "facebook_items source now [] s n u = (s, Inr (n, u))"
| "facebook_items source now (p # ps) s n u =
     (case existing_item s source (fb_id p) of
        Some found \<Rightarrow>
          facebook_items source now ps
            (modify_item (item_id found)
               (\<lambda>i. i\<lparr> text_content := Some (fb_message p), public_metrics := None \<rparr>) s)
            n (Suc u)
      | None \<Rightarrow>
          (case (case fb_created_time p of None \<Rightarrow> Inr now | Some parsed \<Rightarrow> parsed) of
             Inl e \<Rightarrow> (s, Inl e)
           | Inr published \<Rightarrow>
               facebook_items source now ps
                 (add_item
                    \<lparr> item_id = next_item_id s,
                      source_id = ds_id source,
                      external_id = fb_id p,
                      content_type = POST,
                      title = None,
                      text_content = Some (fb_message p),
                      url = None,
                      author = Some (fb_from_name p),
                      published_at = published,
                      public_metrics = None,
                      classification = None \<rparr> s)
                 (Suc n) u))"

fun instagram_items ::
  "DataSource \<Rightarrow> datetime \<Rightarrow> ig_media list \<Rightarrow> session \<Rightarrow> nat \<Rightarrow> nat
     \<Rightarrow> session \<times> (exn + nat \<times> nat)" where
  "instagram_items source now [] s n u = (s, Inr (n, u))"
| "instagram_items source now (m # ms) s n u =
     (case existing_item s source (ig_id m) of
        Some found \<Rightarrow>
          instagram_items source now ms
            (modify_item (item_id found)
               (\<lambda>i. i\<lparr> text_content := Some (or_empty (ig_caption m)),
                        public_metrics := None \<rparr>) s)
            n (Suc u)
      | None \<Rightarrow>
          (case (case ig_timestamp m of None \<Rightarrow> Inr now | Some parsed \<Rightarrow> parsed) of
             Inl e \<Rightarrow> (s, Inl e)
           | Inr published \<Rightarrow>
               instagram_items source now ms
                 (add_item
                    \<lparr> item_id = next_item_id s,
                      source_id = ds_id source,
                      external_id = ig_id m,
                      content_type = POST,
                      title = (case ig_caption m of
                                 None \<Rightarrow> None
                               | Some c \<Rightarrow> if c = [] then None else Some (take 200 c)),
                      text_content = Some (or_empty (ig_caption m)),
                      url = Some (ig_permalink m),
                      author = Some (ig_username m),
                      published_at = published,
                      public_metrics = None,
                      classification = None \<rparr> s)
                 (Suc n) u))"

text \<open>
  The end of each sync function: \<open>db.commit()\<close>, then
  \<open>return items_fetched, items_new, items_updated\<close>.
\<close>

definition finish_sync ::
  "nat \<Rightarrow> session \<times> (exn + nat \<times> nat) \<Rightarrow> session \<times> (exn + nat \<times> nat \<times> nat)" where
  "finish_sync fetched r =
     (case r of
        (s, Inl e) \<Rightarrow> (s, Inl e)
      | (s, Inr (n, u)) \<Rightarrow>
          (case commit s of
             (s', Inl e) \<Rightarrow> (s', Inl e)
           | (s', Inr _) \<Rightarrow> (s', Inr (fetched, n, u))))"

definition sync_twitter_source ::
  "providers \<Rightarrow> datetime \<Rightarrow> session \<Rightarrow> DataSource \<Rightarrow> session \<times> (exn + nat \<times> nat \<times> nat)" where
  "sync_twitter_source P now s source =
     (case require_credentials ''Twitter'' source of
        Inl e \<Rightarrow> (s, Inl e)
      | Inr creds \<Rightarrow>
     (case decrypted P creds ''access_token'' of
        Inl e \<Rightarrow> (s, Inl e)
      | Inr access_token \<Rightarrow>
     (case get_user_timeline P access_token (map_of creds ''twitter_user_id'')
             (window_start source now) of
        Inl e \<Rightarrow> (s, Inl e)
      | Inr tweets \<Rightarrow>
          finish_sync (length tweets)
            (twitter_items source (map_of creds ''twitter_username'') tweets s 0 0))))"

definition sync_rss_source ::
  "providers \<Rightarrow> session \<Rightarrow> DataSource \<Rightarrow> session \<times> (exn + nat \<times> nat \<times> nat)" where
  "sync_rss_source P s source =
     (case feed_url source of
        None \<Rightarrow> (s, Inl (ValueError (ascii ''No feed_url found in RSS source settings'')))
      | Some feed \<Rightarrow>
          let feed_items = parse_feed P feed
          in finish_sync (length feed_items) (rss_items source feed_items s 0 0))"

definition sync_telegram_source ::
  "providers \<Rightarrow> datetime \<Rightarrow> session \<Rightarrow> DataSource \<Rightarrow> session \<times> (exn + nat \<times> nat \<times> nat)" where
  "sync_telegram_source P now s source =
     (case require_credentials ''Telegram'' source of
        Inl e \<Rightarrow> (s, Inl e)
      | Inr creds \<Rightarrow>
     (case decrypted P creds ''bot_token'' of
        Inl e \<Rightarrow> (s, Inl e)
      | Inr bot_token \<Rightarrow>
     (case get_updates P bot_token (last_sync_at source) of
        Inl e \<Rightarrow> (s, Inl e)
      | Inr updates \<Rightarrow>
          finish_sync (length updates) (telegram_items source now updates s 0 0))))"

definition sync_facebook_source ::
  "providers \<Rightarrow> datetime \<Rightarrow> session \<Rightarrow> DataSource \<Rightarrow> session \<times> (exn + nat \<times> nat \<times> nat)" where
  "sync_facebook_source P now s source =
     (case require_credentials ''Facebook'' source of
        Inl e \<Rightarrow> (s, Inl e)
      | Inr creds \<Rightarrow>
     (case decrypted P creds ''access_token'' of
        Inl e \<Rightarrow> (s, Inl e)
      | Inr access_token \<Rightarrow>
     (case get_user_feed P access_token (window_start source now) of
        Inl e \<Rightarrow> (s, Inl e)
      | Inr posts \<Rightarrow>
          finish_sync (length posts) (facebook_items source now posts s 0 0))))"

definition sync_instagram_source ::
  "providers \<Rightarrow> datetime \<Rightarrow> session \<Rightarrow> DataSource \<Rightarrow> session \<times> (exn + nat \<times> nat \<times> nat)" where
  "sync_instagram_source P now s source =
     (case require_credentials ''Instagram'' source of
        Inl e \<Rightarrow> (s, Inl e)
      | Inr creds \<Rightarrow>
     (case decrypted P creds ''access_token'' of
        Inl e \<Rightarrow> (s, Inl e)
      | Inr access_token \<Rightarrow>
     (case get_user_media P access_token of
        Inl e \<Rightarrow> (s, Inl e)
      | Inr media_items \<Rightarrow>
          finish_sync (length media_items) (instagram_items source now media_items s 0 0))))"

text \<open>
  \<open>sync_data_source\<close>. \<open>start_time\<close> is the clock at the start of the task, \<open>later\<close> the
  clock read after that. The source object handed to the per-type function is the loaded
  one, after \<open>source.last_sync_at = start_time\<close>. The closing commit writes the log row
  together with whatever the session still holds; when it raises, the outer handler rolls
  back and nothing of the run is written.
\<close>

definition sync_by_type ::
  "providers \<Rightarrow> datetime \<Rightarrow> session \<Rightarrow> DataSource \<Rightarrow> session \<times> (exn + nat \<times> nat \<times> nat)" where
  "sync_by_type P later s source =
     (case source_type source of
        TWITTER \<Rightarrow> sync_twitter_source P later s source
      | RSS \<Rightarrow> sync_rss_source P s source
      | TELEGRAM \<Rightarrow> sync_telegram_source P later s source
      | FACEBOOK \<Rightarrow> sync_facebook_source P later s source
      | INSTAGRAM \<Rightarrow> sync_instagram_source P later s source
      | EMAIL \<Rightarrow> (s, Inr (0, 0, 0)))"

definition touch_source :: "DataSource \<Rightarrow> database \<Rightarrow> database" where
  "touch_source source db =
     db\<lparr>data_sources := map (\<lambda>r. if ds_id r = ds_id source then source else r) (data_sources db)\<rparr>"

definition make_sync_log ::
  "DataSource \<Rightarrow> datetime \<Rightarrow> datetime \<Rightarrow> exn + nat \<times> nat \<times> nat \<Rightarrow> SyncLog" where
  "make_sync_log source start_time later outcome =
     (case outcome of
        Inr (fetched, new, updated) \<Rightarrow>
          \<lparr> sl_source_id = ds_id source, sl_status = SUCCESS,
            items_fetched = fetched, items_new = new, items_updated = updated,
            sl_error_message = None, started_at = start_time, completed_at = later \<rparr>
      | Inl e \<Rightarrow>
          \<lparr> sl_source_id = ds_id source, sl_status = FAILED_SYNC,
            items_fetched = 0, items_new = 0, items_updated = 0,
            sl_error_message = Some (str_exn e), started_at = start_time,
            completed_at = later \<rparr>)"

definition add_sync_log :: "SyncLog \<Rightarrow> session \<Rightarrow> session" where
  "add_sync_log l s = s\<lparr>pending := (pending s)\<lparr>sync_logs := sync_logs (pending s) @ [l]\<rparr>\<rparr>"

definition sync_data_source ::
  "providers \<Rightarrow> datetime \<Rightarrow> datetime \<Rightarrow> database \<Rightarrow> uuid \<Rightarrow> database" where
  "sync_data_source P start_time later db sid =
     (case first (\<lambda>s. ds_id s = sid) (data_sources db) of
        None \<Rightarrow> db
      | Some loaded \<Rightarrow>
          if \<not> is_active loaded then db
          else
            let source = loaded\<lparr>last_sync_at := Some start_time\<rparr>;
                s0 = \<lparr> committed = db, pending = touch_source source db, new_items = [],
                       needs_rollback = False \<rparr>
            in (case sync_by_type P later s0 source of
                  (s1, outcome) \<Rightarrow>
                    (case commit (add_sync_log
                                    (make_sync_log source start_time later outcome) s1) of
                       (s2, Inr _) \<Rightarrow> committed s2
                     | (s2, Inl e) \<Rightarrow> committed (rollback s2))))"

section \<open>Concrete inputs\<close>

text \<open>The keyword vocabulary of the rule-based classifier, all five lists.\<close>

definition all_keywords :: "ustr list" where
  "all_keywords =
     WORK_KEYWORDS @ PERSONAL_KEYWORDS @ HOBBY_KEYWORDS @ NEWS_KEYWORDS @ IMPORTANT_KEYWORDS"

text \<open>A store with one active user, one active Twitter source and one classified item.\<close>

definition sample_classification :: ContentClassification where
  "sample_classification =
     \<lparr> category = WORK, relevance_score = 1 / 2, importance_score = 1 / 2,
       social_score = 0, personal_score = 3 / 10 \<rparr>"

definition sample_user :: User where
  "sample_user = \<lparr> user_id = 1, user_is_active = True, deleted_at = None \<rparr>"

definition sample_source :: DataSource where
  "sample_source =
     \<lparr> ds_id = 1, ds_user_id = 1, source_type = TWITTER,
       credentials = Some [(''access_token'', ascii ''k'')],
       is_active = True, last_sync_at = Some 1000, sync_frequency_minutes = 15,
       feed_url = None \<rparr>"

definition sample_item :: ContentItem where
  "sample_item =
     \<lparr> item_id = 1, source_id = 1, external_id = ascii ''t1'', content_type = POST,
       title = None, text_content = Some (ascii ''hello''), url = None, author = None,
       published_at = 0, public_metrics = None,
       classification = Some sample_classification \<rparr>"

definition sample_db :: database where
  "sample_db =
     \<lparr> users = [sample_user], user_preferences = [], data_sources = [sample_source],
       content_items = [sample_item], briefings = [], briefing_content = [],
       sync_logs = [] \<rparr>"

text \<open>Whether a text contains one of the classifier's keywords.\<close>

definition mentions_keyword :: "ustr \<Rightarrow> bool" where
  "mentions_keyword txt = list_ex (contains txt) all_keywords"

text \<open>
  An item classified by the rule-based classifier whose text has no keyword, and an item
  whose title is U+0434 U+0435 U+043D U+044C and whose body is U+0440 U+043E U+0436 U+0434
  U+0435 U+043D U+0438 U+044F: the two halves of the keyword with a space in it.
\<close>

definition plain_item :: ContentItem where
  "plain_item =
     sample_item\<lparr>classification :=
       Some \<lparr> category = OTHER, relevance_score = 0, importance_score = 0,
              social_score = 0, personal_score = 3 / 10 \<rparr>\<rparr>"

definition plain_db :: database where
  "plain_db = sample_db\<lparr>content_items := [plain_item]\<rparr>"

definition birthday_item :: ContentItem where
  "birthday_item =
     sample_item\<lparr> title := Some [1076, 1077, 1085, 1100],
                   text_content := Some [1088, 1086, 1078, 1076, 1077, 1085, 1080, 1103] \<rparr>"

text \<open>A well-formed reply of the model with a relevance of 1.5.\<close>

definition overconfident_reply :: ai_reply where
  "overconfident_reply =
     Parsed (JObj [(''category'', JStr (ascii ''work'')),
                   (''relevance_score'', JNum (3 / 2)),
                   (''importance_score'', JNum (1 / 2)),
                   (''social_score'', JNum (2 / 5)),
                   (''personal_score'', JNum (3 / 10))])"

text \<open>
  A reply that parses but names a category outside the enumeration, and a string parser
  that rejects every string.
\<close>

definition bad_category_reply :: ai_reply where
  "bad_category_reply = Parsed (JObj [(''category'', JStr (ascii ''sports''))])"

definition rejects_all :: "ustr \<Rightarrow> rat option" where
  "rejects_all s = None"

text \<open>
  The clock and collaborators of a generation run; a store without candidates in which
  the user's briefing for day 5 is delivered, and one in which it has failed.
\<close>

definition sample_env :: gen_env where
  "sample_env =
     \<lparr> utcnow = 0, today = 5, summary = ascii ''digest'',
       audio_url = Inr (ascii ''/storage/7.mp3'') \<rparr>"

definition delivered_briefing :: Briefing where
  "delivered_briefing =
     \<lparr> b_id = 7, b_user_id = 1, b_date = 5, b_status = DELIVERED,
       text_summary = Some (ascii ''digest''), audio_file_url = Some (ascii ''/storage/7.mp3''),
       audio_duration_seconds = Some 120, content_items_count = 1,
       generated_at = Some (- 20), delivered_at = Some (- 10), b_error_message = None \<rparr>"

definition delivered_db :: database where
  "delivered_db = plain_db\<lparr>briefings := [delivered_briefing]\<rparr>"



text \<open>
  Collaborators for the sync scenarios: decryption succeeds, and the Twitter client
  answers with the given function of the window start; the other clients return nothing.
\<close>

definition twitter_only :: "(datetime \<Rightarrow> exn + tweet list) \<Rightarrow> providers" where
  "twitter_only timeline =
     \<lparr> decrypt_data = (\<lambda>enc. Inr enc),
       get_user_timeline = (\<lambda>token uid start. timeline start),
       feedparser_entries = (\<lambda>feed. Inr []),
       get_updates = (\<lambda>token offset. Inr []),
       get_user_feed = (\<lambda>token start. Inr []),
       get_user_media = (\<lambda>token. Inr []) \<rparr>"

definition tweet_at :: "string \<Rightarrow> datetime \<Rightarrow> tweet" where
  "tweet_at name created =
     \<lparr> tw_id = ascii name, tw_text = Some (ascii name), tw_created_at = Inr created,
       tw_public_metrics = None \<rparr>"

text \<open>The two polls of the scenario: three fresh tweets, then one repeated and two new.\<close>

definition first_poll :: providers where
  "first_poll = twitter_only (\<lambda>start. Inr [tweet_at ''a'' 1100, tweet_at ''b'' 1200, tweet_at ''c'' 1300])"

definition second_poll :: providers where
  "second_poll = twitter_only (\<lambda>start. Inr [tweet_at ''c'' 1300, tweet_at ''d'' 1400, tweet_at ''e'' 1500])"

definition empty_db :: database where
  "empty_db = sample_db\<lparr>content_items := []\<rparr>"

text \<open>A Twitter API that honours \<open>start_time\<close>: it has one tweet, created at 1500.\<close>

definition windowed_twitter :: providers where
  "windowed_twitter =
     twitter_only (\<lambda>start. Inr (if start \<le> 1500 then [tweet_at ''a'' 1500] else []))"



definition rss_source :: DataSource where
  "rss_source =
     sample_source\<lparr> source_type := RSS, credentials := None,
                     feed_url := Some (ascii ''http://example.org/feed'') \<rparr>"

definition rss_db :: database where
  "rss_db = empty_db\<lparr>data_sources := [rss_source]\<rparr>"

text \<open>A Telegram source, and a poll that returns one update without a message.\<close>

definition telegram_source :: DataSource where
  "telegram_source =
     sample_source\<lparr> source_type := TELEGRAM, credentials := Some [(''bot_token'', ascii ''k'')] \<rparr>"

definition telegram_poll :: providers where
  "telegram_poll = (twitter_only (\<lambda>start. Inr []))\<lparr>get_updates := (\<lambda>token offset. Inr [None])\<rparr>"

definition fresh_session :: "database \<Rightarrow> session" where
  "fresh_session db =
     \<lparr> committed = db, pending = db, new_items = [], needs_rollback = False \<rparr>"

text \<open>The session of a sync run of the sample source started at 2000.\<close>

definition touched_source :: DataSource where
  "touched_source = sample_source\<lparr>last_sync_at := Some 2000\<rparr>"

definition touched_session :: session where
  "touched_session =
     \<lparr> committed = empty_db, pending = touch_source touched_source empty_db, new_items = [],
       needs_rollback = False \<rparr>"

text \<open>
  An item without keywords whose metadata carries a negative like count; a user who is not
  active, with a delivered briefing in the store.
\<close>

definition disliked_item :: ContentItem where
  "disliked_item = sample_item\<lparr>public_metrics := Some [(''like_count'', - 500)]\<rparr>"

text \<open>An item whose like count is beyond the range of a float.\<close>

definition viral_item :: ContentItem where
  "viral_item = sample_item\<lparr>public_metrics := Some [(''like_count'', 2 ^ 1024)]\<rparr>"

definition inactive_user :: User where
  "inactive_user = sample_user\<lparr>user_is_active := False\<rparr>"

definition inactive_delivered_db :: database where
  "inactive_delivered_db = delivered_db\<lparr>users := [inactive_user]\<rparr>"

text \<open>
  A Facebook and an Instagram source, collaborators that return one item of each kind
  (and, for Telegram, an update without a message before one with a message), and a
  Twitter API that returns the same tweet twice.
\<close>

definition facebook_source :: DataSource where
  "facebook_source = sample_source\<lparr>source_type := FACEBOOK\<rparr>"

definition instagram_source :: DataSource where
  "instagram_source = sample_source\<lparr>source_type := INSTAGRAM\<rparr>"

definition sample_feed_item :: feed_item where
  "sample_feed_item =
     \<lparr> fi_external_id = ascii ''f'', fi_title = ascii ''t'', fi_text_content = ascii ''x'',
       fi_url = ascii ''u'', fi_author = ascii ''w'', fi_published_at = 1100 \<rparr>"

definition sample_message :: tg_message where
  "sample_message =
     \<lparr> tg_message_id = ascii ''7'', tg_date = Some 1100, tg_text = ascii ''hi'',
       tg_username = ascii ''w'' \<rparr>"

definition sample_post :: fb_post where
  "sample_post =
     \<lparr> fb_id = ascii ''p'', fb_message = ascii ''x'', fb_created_time = Some (Inr 1100),
       fb_from_name = ascii ''w'' \<rparr>"

definition sample_media :: ig_media where
  "sample_media =
     \<lparr> ig_id = ascii ''m'', ig_caption = Some (ascii ''x''), ig_timestamp = None,
       ig_permalink = ascii ''u'', ig_username = ascii ''w'' \<rparr>"

definition mixed_poll :: providers where
  "mixed_poll =
     \<lparr> decrypt_data = (\<lambda>enc. Inr enc),
       get_user_timeline = (\<lambda>token uid start. Inr [tweet_at ''a'' 1100]),
       feedparser_entries = (\<lambda>feed. Inr [sample_feed_item]),
       get_updates = (\<lambda>token offset. Inr [None, Some sample_message]),
       get_user_feed = (\<lambda>token start. Inr [sample_post]),
       get_user_media = (\<lambda>token. Inr [sample_media]) \<rparr>"

definition duplicate_poll :: providers where
  "duplicate_poll = twitter_only (\<lambda>start. Inr [tweet_at ''a'' 1100, tweet_at ''a'' 1100])"

section \<open>The selector\<close>

lemma ranks_before_total: "ranks_before a b \<or> ranks_before b a"
  by (auto simp: ranks_before_def)

lemma ranks_before_trans: "ranks_before a b \<Longrightarrow> ranks_before b c \<Longrightarrow> ranks_before a c"
  by (auto simp: ranks_before_def)

lemma set_insert_ranked: "set (insert_ranked a xs) = insert a (set xs)"
  by (induction xs) auto

lemma mset_insert_ranked: "mset (insert_ranked a xs) = add_mset a (mset xs)"
  by (induction xs) auto

lemma mset_order_by_rank: "mset (order_by_rank xs) = mset xs"
  by (induction xs) (auto simp: mset_insert_ranked)

lemma set_order_by_rank: "set (order_by_rank xs) = set xs"
  by (metis mset_order_by_rank set_mset_mset)

lemma length_order_by_rank: "length (order_by_rank xs) = length xs"
  by (metis mset_order_by_rank size_mset)

lemma sorted_insert_ranked:
  "sorted_wrt ranks_before xs \<Longrightarrow> sorted_wrt ranks_before (insert_ranked a xs)"
proof (induction xs)
  case Nil
  then show ?case by simp
next
  case (Cons b bs)
  show ?case
  proof (cases "ranks_before a b")
    case True
    then have "\<forall>c\<in>set bs. ranks_before a c"
      using Cons.prems ranks_before_trans by auto
    with True Cons.prems show ?thesis by simp
  next
    case False
    then have "ranks_before b a" using ranks_before_total by blast
    with False Cons show ?thesis by (auto simp: set_insert_ranked)
  qed
qed

lemma sorted_order_by_rank: "sorted_wrt ranks_before (order_by_rank xs)"
  by (induction xs) (auto simp: sorted_insert_ranked)

lemma sorted_wrt_take: "sorted_wrt P xs \<Longrightarrow> sorted_wrt P (take n xs)"
  by (metis append_take_drop_id sorted_wrt_append)

lemma candidates_classified:
  "i \<in> set (candidates db user now t) \<Longrightarrow> classification i \<noteq> None"
  by (auto simp: candidates_def Let_def split: option.splits)

lemma filter_classified_take:
  "filter (\<lambda>item. classification item \<noteq> None) (take k (order_by_rank (candidates db user now t)))
     = take k (order_by_rank (candidates db user now t))"
proof -
  have "\<forall>i\<in>set (take k (order_by_rank (candidates db user now t))). classification i \<noteq> None"
  proof
    fix i
    assume "i \<in> set (take k (order_by_rank (candidates db user now t)))"
    then have "i \<in> set (order_by_rank (candidates db user now t))"
      by (rule in_set_takeD)
    then have "i \<in> set (candidates db user now t)"
      by (simp only: set_order_by_rank)
    then show "classification i \<noteq> None" by (rule candidates_classified)
  qed
  then show ?thesis by (rule filter_True)
qed

text \<open>
  The statements after the imports do what the selector is meant to do: for a user with a
  threshold and a positive bound they return the best-ranked candidates, at most as many
  as the bound, in rank order, and all of them when there are no more than the bound.
\<close>

lemma select_body_positive:
  assumes "min_relevance_for db user = Some t" and "0 < effective_max_items mo"
  shows "select_body db user now mo =
           Inr (take (nat (effective_max_items mo)) (order_by_rank (candidates db user now t)))"
proof -
  let ?n = "effective_max_items mo"
  have m: "min (nat ?n) (nat (?n * 2)) = nat ?n"
    using assms(2) by simp
  have "\<not> ?n * 2 < 0" using assms(2) by simp
  then have "select_body db user now mo =
      Inr (take (nat ?n) (filter (\<lambda>item. classification item \<noteq> None)
             (take (nat (?n * 2)) (order_by_rank (candidates db user now t)))))"
    unfolding select_body_def Let_def assms(1) by (simp only: if_False option.case)
  also have "\<dots> = Inr (take (nat ?n) (take (nat (?n * 2)) (order_by_rank (candidates db user now t))))"
    by (simp only: filter_classified_take)
  also have "\<dots> = Inr (take (nat ?n) (order_by_rank (candidates db user now t)))"
    by (simp only: take_take m)
  finally show ?thesis .
qed

lemma select_body_bound:
  assumes "min_relevance_for db user = Some t" and "0 < m"
  shows "\<exists>items. select_body db user now (Some m) = Inr items
           \<and> length items \<le> nat m
           \<and> sorted_wrt ranks_before items
           \<and> (length (candidates db user now t) \<le> nat m
                \<longrightarrow> mset items = mset (candidates db user now t))"
proof -
  have e: "effective_max_items (Some m) = m"
    using assms(2) by (simp add: effective_max_items_def)
  let ?items = "take (nat m) (order_by_rank (candidates db user now t))"
  have 1: "select_body db user now (Some m) = Inr ?items"
    using select_body_positive [OF assms(1), of "Some m" now] assms(2) e by simp
  have 2: "length ?items \<le> nat m" by simp
  have 3: "sorted_wrt ranks_before ?items"
    by (rule sorted_wrt_take) (rule sorted_order_by_rank)
  have 4: "length (candidates db user now t) \<le> nat m
             \<longrightarrow> mset ?items = mset (candidates db user now t)"
    by (simp add: length_order_by_rank mset_order_by_rank)
  from 1 2 3 4 show ?thesis by blast
qed

lemma selector_import_error:
  "select_content_for_briefing db user now max_items = Inl ImportError"
  by (simp add: select_content_for_briefing_def import_UserPreferences_from_user_def)

text \<open>
  Claim C1 at every call of the selector, whatever the store, the user and \<open>max_items\<close>:
  the claim is that it returns at most \<open>max_items\<close> content items in rank order. The
  function's second statement, \<open>from app.models.user import UserPreferences\<close>, raises
  ImportError before \<open>max_items\<close> is read, so the call returns no list at all.
\<close>

theorem select_content_for_briefing_raises:
  "select_content_for_briefing db user now max_items = Inl ImportError"
  by (simp add: select_content_for_briefing_def import_UserPreferences_from_user_def)

section \<open>The rule-based classifier on texts without keywords\<close>

lemmas keyword_defs = WORK_KEYWORDS_def PERSONAL_KEYWORDS_def HOBBY_KEYWORDS_def
  NEWS_KEYWORDS_def IMPORTANT_KEYWORDS_def

lemma float_limit_large: "2 ^ 53 \<le> float_limit"
  by (simp add: float_limit_def)

lemma py_float_of_int_in_range:
  "\<bar>i\<bar> < float_limit \<Longrightarrow> py_float_of_int i = Inr (of_int i)"
  by (simp add: py_float_of_int_def)

lemma calculate_social_score_in_range:
  "\<bar>total_engagement pm\<bar> < float_limit \<Longrightarrow>
     calculate_social_score pm = Inr (min (of_int (total_engagement pm) / 1000) 1)"
  by (simp add: calculate_social_score_def py_float_of_int_in_range)

lemma matches_none: "\<forall>k\<in>set kws. \<not> contains txt k \<Longrightarrow> matches txt kws = 0"
  by (simp add: matches_def)

lemma calculate_score_none:
  "\<forall>k\<in>set kws. \<not> contains txt k \<Longrightarrow> calculate_score txt kws = 0"
  by (simp add: calculate_score_def matches_none)

lemma calculate_score_bounds: "0 \<le> calculate_score txt kws \<and> calculate_score txt kws \<le> 1"
  by (simp add: calculate_score_def)

lemma no_keyword_scores:
  assumes "\<not> mentions_keyword txt"
  shows "calculate_score txt WORK_KEYWORDS = 0"
    and "calculate_score txt PERSONAL_KEYWORDS = 0"
    and "calculate_score txt HOBBY_KEYWORDS = 0"
    and "calculate_score txt NEWS_KEYWORDS = 0"
    and "calculate_score txt IMPORTANT_KEYWORDS = 0"
proof -
  have a: "\<forall>k\<in>set all_keywords. \<not> contains txt k"
    using assms by (simp add: mentions_keyword_def list_ex_iff)
  show "calculate_score txt WORK_KEYWORDS = 0"
    by (rule calculate_score_none) (use a in \<open>simp add: all_keywords_def\<close>)
  show "calculate_score txt PERSONAL_KEYWORDS = 0"
    by (rule calculate_score_none) (use a in \<open>simp add: all_keywords_def\<close>)
  show "calculate_score txt HOBBY_KEYWORDS = 0"
    by (rule calculate_score_none) (use a in \<open>simp add: all_keywords_def\<close>)
  show "calculate_score txt NEWS_KEYWORDS = 0"
    by (rule calculate_score_none) (use a in \<open>simp add: all_keywords_def\<close>)
  show "calculate_score txt IMPORTANT_KEYWORDS = 0"
    by (rule calculate_score_none) (use a in \<open>simp add: all_keywords_def\<close>)
qed

text \<open>What the classifier returns for a text without keywords, when it returns.\<close>

lemma no_keyword_classification:
  assumes "\<not> mentions_keyword (full_text content)"
    and "\<bar>total_engagement (public_metrics content)\<bar> < float_limit"
  shows "RuleBasedClassifier_classify content =
           Inr \<lparr> category = OTHER, relevance_score = 0, importance_score = 0,
                 social_score = min (of_int (total_engagement (public_metrics content)) / 1000) 1,
                 personal_score = 3 / 10 \<rparr>"
  using no_keyword_scores [OF assms(1)]
  by (simp add: RuleBasedClassifier_classify_def Let_def
      calculate_social_score_in_range [OF assms(2)] calculate_personal_score_def)

lemma zero_relevance_not_candidate:
  assumes "classification i = Some c" "relevance_score c = 0" "0 < t"
  shows "i \<notin> set (candidates db user now t)"
  using assms by (auto simp: candidates_def Let_def)

lemma birthday_full_text:
  "full_text birthday_item =
     [1076, 1077, 1085, 1100, 32, 1088, 1086, 1078, 1076, 1077, 1085, 1080, 1103]"
  by (simp add: full_text_def birthday_item_def sample_item_def or_empty_def lower_def
      lower_cp_def)

lemma birthday_matches:
  "matches (full_text birthday_item) WORK_KEYWORDS = 0"
  "matches (full_text birthday_item) PERSONAL_KEYWORDS = 1"
  "matches (full_text birthday_item) HOBBY_KEYWORDS = 0"
  "matches (full_text birthday_item) NEWS_KEYWORDS = 0"
  "matches (full_text birthday_item) IMPORTANT_KEYWORDS = 0"
  by (simp_all add: birthday_full_text matches_def keyword_defs)

lemma birthday_scores:
  "calculate_score (full_text birthday_item) WORK_KEYWORDS = 0"
  "calculate_score (full_text birthday_item) PERSONAL_KEYWORDS = 1 / 4"
  "calculate_score (full_text birthday_item) HOBBY_KEYWORDS = 0"
  "calculate_score (full_text birthday_item) NEWS_KEYWORDS = 0"
  "calculate_score (full_text birthday_item) IMPORTANT_KEYWORDS = 0"
  by (simp_all add: calculate_score_def birthday_matches) (simp_all add: keyword_defs)

lemma birthday_title_plain: "\<not> mentions_keyword (or_empty (title birthday_item))"
  by (simp add: mentions_keyword_def all_keywords_def keyword_defs birthday_item_def
      sample_item_def or_empty_def)

lemma birthday_body_plain: "\<not> mentions_keyword (or_empty (text_content birthday_item))"
  by (simp add: mentions_keyword_def all_keywords_def keyword_defs birthday_item_def
      sample_item_def or_empty_def)

lemma birthday_social: "calculate_social_score (public_metrics birthday_item) = Inr 0"
  by (simp add: calculate_social_score_def py_float_of_int_def float_limit_def
      total_engagement_def get_default_def birthday_item_def sample_item_def)

text \<open>
  Claim C10, as stated, for the item whose title and body are the two words of the
  keyword that has a space in it: neither the title nor the body contains a keyword, and
  yet the classifier, which looks for keywords in \<open>f"{title} {text}"\<close>, finds one and
  returns category PERSONAL with relevance 0.25.
\<close>

theorem split_keyword_counterexample:
  "\<not> mentions_keyword (or_empty (title birthday_item))
   \<and> \<not> mentions_keyword (or_empty (text_content birthday_item))
   \<and> RuleBasedClassifier_classify birthday_item
       = Inr \<lparr> category = PERSONAL, relevance_score = 1 / 4, importance_score = 1 / 8,
               social_score = 0, personal_score = 3 / 10 \<rparr>"
  using birthday_title_plain birthday_body_plain
  by (simp add: RuleBasedClassifier_classify_def Let_def birthday_scores birthday_social
      calculate_personal_score_def)

lemma plain_full_text: "full_text plain_item = [32, 104, 101, 108, 108, 111]"
  by (simp add: full_text_def plain_item_def sample_item_def or_empty_def lower_def
      lower_cp_def ascii_def)

lemma plain_item_no_keyword: "\<not> mentions_keyword (full_text plain_item)"
  by (simp add: plain_full_text mentions_keyword_def all_keywords_def keyword_defs)

lemma plain_item_engagement: "total_engagement (public_metrics plain_item) = 0"
  by (simp add: total_engagement_def get_default_def plain_item_def sample_item_def)

lemma plain_item_in_range: "\<bar>total_engagement (public_metrics plain_item)\<bar> < float_limit"
  using float_limit_large by (simp add: plain_item_engagement)

lemma plain_classify:
  "RuleBasedClassifier_classify plain_item =
     Inr \<lparr> category = OTHER, relevance_score = 0, importance_score = 0,
           social_score = 0, personal_score = 3 / 10 \<rparr>"
  using no_keyword_classification [OF plain_item_no_keyword plain_item_in_range]
  by (simp add: plain_item_engagement)

lemma plain_item_classified:
  "classification plain_item =
     Some \<lparr> category = OTHER, relevance_score = 0, importance_score = 0,
            social_score = 0, personal_score = 3 / 10 \<rparr>"
  by (simp add: plain_item_def sample_item_def)

lemma plain_threshold: "min_relevance_for plain_db sample_user = Some (3 / 10)"
  by (simp add: min_relevance_for_def plain_db_def sample_db_def first_def
      MIN_RELEVANCE_SCORE_def)

lemma plain_candidates: "candidates plain_db sample_user 0 (3 / 10) = []"
  unfolding candidates_def Let_def
  by (simp add: plain_db_def sample_db_def plain_item_def sample_item_def)

text \<open>
  Claim C10, amended: for every content item whose lowered \<open>title + " " + body\<close> contains
  none of the classifier's keywords (and whose engagement counts stay within the range of
  a float), the rule-based classifier returns category OTHER with relevance score exactly
  0; stored with that classification, the item does not meet the selector's filter
  \<open>relevance_score >= min_relevance\<close> for any positive threshold, so it is not among the
  rows of the selector's query.
\<close>

theorem no_keyword_item_other_never_selected:
  assumes "\<not> mentions_keyword (full_text content)"
    and "\<bar>total_engagement (public_metrics content)\<bar> < float_limit"
  shows "\<exists>c. RuleBasedClassifier_classify content = Inr c
           \<and> category c = OTHER \<and> relevance_score c = 0
           \<and> (classification content = Some c \<and> 0 < min_relevance
                \<longrightarrow> content \<notin> set (candidates db user now min_relevance))"
proof -
  let ?c = "\<lparr> category = OTHER, relevance_score = 0, importance_score = 0,
               social_score = min (of_int (total_engagement (public_metrics content)) / 1000) 1,
               personal_score = 3 / 10 \<rparr>"
  have r: "RuleBasedClassifier_classify content = Inr ?c"
    by (rule no_keyword_classification [OF assms])
  have "content \<notin> set (candidates db user now min_relevance)"
    if "classification content = Some ?c" "0 < min_relevance"
    by (rule zero_relevance_not_candidate [OF that(1) _ that(2)]) simp
  with r show ?thesis by (intro exI [of _ ?c]) simp
qed

theorem no_keyword_item_other_never_selected_witness:
  "\<not> mentions_keyword (full_text plain_item)
   \<and> \<bar>total_engagement (public_metrics plain_item)\<bar> < float_limit
   \<and> RuleBasedClassifier_classify plain_item
       = Inr \<lparr> category = OTHER, relevance_score = 0, importance_score = 0,
               social_score = 0, personal_score = 3 / 10 \<rparr>
   \<and> classification plain_item
       = Some \<lparr> category = OTHER, relevance_score = 0, importance_score = 0,
                social_score = 0, personal_score = 3 / 10 \<rparr>
   \<and> (0::rat) < 3 / 10
   \<and> plain_item \<notin> set (candidates plain_db sample_user 0 (3 / 10))"
proof -
  obtain c where c: "RuleBasedClassifier_classify plain_item = Inr c"
    "classification plain_item = Some c \<and> (0::rat) < 3 / 10
       \<longrightarrow> plain_item \<notin> set (candidates plain_db sample_user 0 (3 / 10))"
    using no_keyword_item_other_never_selected
      [OF plain_item_no_keyword plain_item_in_range, of "3 / 10" plain_db sample_user 0]
    by blast
  have "c = \<lparr> category = OTHER, relevance_score = 0, importance_score = 0,
              social_score = 0, personal_score = 3 / 10 \<rparr>"
    using c(1) plain_classify by simp
  with c(2) plain_item_classified
  have "plain_item \<notin> set (candidates plain_db sample_user 0 (3 / 10))" by simp
  with plain_item_no_keyword plain_item_in_range plain_classify plain_item_classified
  show ?thesis by simp
qed

section \<open>Score ranges and the fallback of the AI-backed classifier\<close>

lemma max4_bounds:
  fixes a b c d :: rat
  assumes "0 \<le> a \<and> a \<le> 1" "0 \<le> b \<and> b \<le> 1" "0 \<le> c \<and> c \<le> 1" "0 \<le> d \<and> d \<le> 1"
  shows "0 \<le> max (max (max a b) c) d \<and> max (max (max a b) c) d \<le> 1"
  using assms by (simp add: le_max_iff_disj)

text \<open>
  The rule-based path, when it returns: relevance and importance lie in [0, 1], the social
  score is at most 1, and at least 0 when the engagement counts add up to a non-negative
  number; the personal score is the constant 0.3.
\<close>

lemma rule_based_scores_in_range:
  assumes "RuleBasedClassifier_classify content = Inr c"
  shows "0 \<le> relevance_score c \<and> relevance_score c \<le> 1
         \<and> 0 \<le> importance_score c \<and> importance_score c \<le> 1
         \<and> social_score c \<le> 1
         \<and> (0 \<le> total_engagement (public_metrics content) \<longrightarrow> 0 \<le> social_score c)
         \<and> personal_score c = 3 / 10"
proof -
  let ?t = "full_text content"
  define r where
    "r = max (max (max (calculate_score ?t WORK_KEYWORDS) (calculate_score ?t PERSONAL_KEYWORDS))
                (calculate_score ?t HOBBY_KEYWORDS)) (calculate_score ?t NEWS_KEYWORDS)"
  define i where "i = calculate_score ?t IMPORTANT_KEYWORDS"
  have rb: "0 \<le> r \<and> r \<le> 1"
    unfolding r_def by (rule max4_bounds) (rule calculate_score_bounds)+
  have ib: "0 \<le> i \<and> i \<le> 1"
    unfolding i_def by (rule calculate_score_bounds)
  obtain social where s: "calculate_social_score (public_metrics content) = Inr social"
    using assms
    by (auto simp: RuleBasedClassifier_classify_def Let_def split: sum.splits)
  have soc: "social = min (of_int (total_engagement (public_metrics content)) / 1000) 1"
    using s by (auto simp: calculate_social_score_def py_float_of_int_def
                     split: if_splits sum.splits)
  have c: "c = \<lparr> category = category c, relevance_score = min r 1,
                  importance_score = min (i * (1 / 2) + r * (1 / 2)) 1,
                  social_score = social, personal_score = 3 / 10 \<rparr>"
    using assms s
    by (auto simp: RuleBasedClassifier_classify_def Let_def r_def i_def
        calculate_personal_score_def)
  have 1: "0 \<le> min r 1 \<and> min r 1 \<le> 1" using rb by simp
  have 2: "0 \<le> min (i * (1 / 2) + r * (1 / 2)) 1 \<and> min (i * (1 / 2) + r * (1 / 2)) 1 \<le> 1"
    using rb ib by simp
  have 3: "social \<le> 1" by (simp add: soc)
  have 4: "0 \<le> total_engagement (public_metrics content) \<longrightarrow> 0 \<le> social"
    by (simp add: soc)
  have "relevance_score c = min r 1" "importance_score c = min (i * (1 / 2) + r * (1 / 2)) 1"
    "social_score c = social" "personal_score c = 3 / 10"
    by (subst c, simp)+
  with 1 2 3 4 show ?thesis by simp
qed

text \<open>
  Claim C2 at a well-formed reply of the model whose relevance is 1.5: the AI-backed path
  returns \<open>float(result.get("relevance_score", 0.5))\<close> as it is, so the relevance score
  of the classification is 1.5, outside [0, 1].
\<close>

theorem ai_relevance_not_clamped:
  "AIClassifier_classify float_of_str overconfident_reply content
     = Inr \<lparr> category = WORK, relevance_score = 3 / 2, importance_score = 1 / 2,
             social_score = 2 / 5, personal_score = 3 / 10 \<rparr>
   \<and> relevance_score \<lparr> category = WORK, relevance_score = 3 / 2, importance_score = 1 / 2,
                       social_score = 2 / 5, personal_score = 3 / 10 \<rparr> = 3 / 2
   \<and> \<not> relevance_score \<lparr> category = WORK, relevance_score = 3 / 2, importance_score = 1 / 2,
                         social_score = 2 / 5, personal_score = 3 / 10 \<rparr> \<le> 1"
proof -
  have c: "CategoryType_of (JStr (ascii ''work'')) = Inr WORK"
    by (simp add: CategoryType_of_def ascii_def)
  have "AIClassifier_try float_of_str overconfident_reply =
          Inr \<lparr> category = WORK, relevance_score = 3 / 2, importance_score = 1 / 2,
                social_score = 2 / 5, personal_score = 3 / 10 \<rparr>"
    by (simp add: AIClassifier_try_def overconfident_reply_def get_default_def c py_float_def)
  then show ?thesis by (simp add: AIClassifier_classify_def)
qed

text \<open>The failures the \<open>try\<close> block can end in, one for each kind of bad reply.\<close>

lemma ai_try_upstream_error: "AIClassifier_try f UpstreamError = Inl APIError"
  by (simp add: AIClassifier_try_def)

lemma ai_try_malformed: "AIClassifier_try f MalformedReply = Inl JSONDecodeError"
  by (simp add: AIClassifier_try_def)

lemma ai_try_not_an_object:
  "AIClassifier_try f (Parsed JNull) = Inl AttributeError"
  "AIClassifier_try f (Parsed (JBool b)) = Inl AttributeError"
  "AIClassifier_try f (Parsed (JInt i)) = Inl AttributeError"
  "AIClassifier_try f (Parsed (JNum r)) = Inl AttributeError"
  "AIClassifier_try f (Parsed (JStr s)) = Inl AttributeError"
  "AIClassifier_try f (Parsed (JList xs)) = Inl AttributeError"
  by (simp_all add: AIClassifier_try_def)

lemma ai_try_bad_category:
  "AIClassifier_try f bad_category_reply = Inl (ValueError (ascii ''is not a valid CategoryType''))"
proof -
  have "CategoryType_of (JStr (ascii ''sports'')) = Inl (ValueError (ascii ''is not a valid CategoryType''))"
    by (simp add: CategoryType_of_def ascii_def)
  then show ?thesis
    by (simp add: AIClassifier_try_def bad_category_reply_def get_default_def)
qed

lemma ai_try_bad_score:
  "AIClassifier_try f (Parsed (JObj [(''relevance_score'', JNull)])) = Inl TypeError"
proof -
  have "CategoryType_of (JStr (ascii ''other'')) = Inr OTHER"
    by (simp add: CategoryType_of_def ascii_def)
  then show ?thesis
    by (simp add: AIClassifier_try_def get_default_def py_float_def)
qed

lemma disliked_full_text: "full_text disliked_item = [32, 104, 101, 108, 108, 111]"
  by (simp add: full_text_def disliked_item_def sample_item_def or_empty_def lower_def
      lower_cp_def ascii_def)

lemma disliked_item_no_keyword: "\<not> mentions_keyword (full_text disliked_item)"
  by (simp add: disliked_full_text mentions_keyword_def all_keywords_def keyword_defs)

lemma disliked_item_engagement: "total_engagement (public_metrics disliked_item) = - 500"
  by (simp add: total_engagement_def get_default_def disliked_item_def sample_item_def)

lemma disliked_classify:
  "RuleBasedClassifier_classify disliked_item =
     Inr \<lparr> category = OTHER, relevance_score = 0, importance_score = 0,
           social_score = - (1 / 2), personal_score = 3 / 10 \<rparr>"
proof -
  have "\<bar>total_engagement (public_metrics disliked_item)\<bar> < float_limit"
    using float_limit_large by (simp add: disliked_item_engagement)
  from no_keyword_classification [OF disliked_item_no_keyword this]
  show ?thesis by (simp add: disliked_item_engagement)
qed

text \<open>
  With an engagement sum that no float holds, the division in \<open>_calculate_social_score\<close>
  raises OverflowError; the fallback call stands in the \<open>except\<close> block, where nothing
  catches it, so the exception leaves \<open>AIClassifier.classify\<close>.
\<close>

lemma viral_item_engagement: "total_engagement (public_metrics viral_item) = 2 ^ 1024"
  by (simp add: total_engagement_def get_default_def viral_item_def sample_item_def)

lemma viral_social_score: "calculate_social_score (public_metrics viral_item) = Inl OverflowError"
  by (simp add: calculate_social_score_def viral_item_engagement py_float_of_int_def
      float_limit_def)

lemma viral_classify: "RuleBasedClassifier_classify viral_item = Inl OverflowError"
  by (simp add: RuleBasedClassifier_classify_def Let_def viral_social_score)

lemma fallback_overflow:
  "AIClassifier_try rejects_all bad_category_reply
     = Inl (ValueError (ascii ''is not a valid CategoryType''))
   \<and> AIClassifier_classify rejects_all bad_category_reply viral_item = Inl OverflowError"
  using ai_try_bad_category [of rejects_all] viral_classify
  by (simp add: AIClassifier_classify_def)

text \<open>
  Claim C3, as stated, for an item whose metadata carries \<open>like_count = -500\<close> and a reply
  with a category outside the enumeration: the AI path raises, the fallback runs and
  returns a classification whose social score is -0.5, outside [0, 1]: the rule-based
  path bounds the social score from above only.
\<close>

theorem fallback_negative_social_counterexample:
  "AIClassifier_try rejects_all bad_category_reply
     = Inl (ValueError (ascii ''is not a valid CategoryType''))
   \<and> AIClassifier_classify rejects_all bad_category_reply disliked_item
       = Inr \<lparr> category = OTHER, relevance_score = 0, importance_score = 0,
               social_score = - (1 / 2), personal_score = 3 / 10 \<rparr>
   \<and> \<not> (0::rat) \<le> - (1 / 2)"
  using ai_try_bad_category [of rejects_all] disliked_classify
  by (simp add: AIClassifier_classify_def)

text \<open>
  Claim C3, amended: for every content item whose engagement counts add up to a
  non-negative number within the range of a float, if the AI classification path raises
  (an upstream error, a reply that is not JSON, a reply that violates the schema),
  \<open>classify\<close> returns the classification the rule-based path produces for that item, with
  all four scores in [0, 1] and a category of the enumeration, and no exception leaves
  the function.
\<close>

theorem ai_failure_falls_back_to_rules:
  assumes "AIClassifier_try float_of_str reply = Inl e"
    and "0 \<le> total_engagement (public_metrics content)"
    and "total_engagement (public_metrics content) < float_limit"
  shows "\<exists>c. AIClassifier_classify float_of_str reply content = Inr c
           \<and> RuleBasedClassifier_classify content = Inr c
           \<and> category c \<in> {PERSONAL, WORK, HOBBY, NEWS, IMPORTANT, OTHER}
           \<and> 0 \<le> relevance_score c \<and> relevance_score c \<le> 1
           \<and> 0 \<le> importance_score c \<and> importance_score c \<le> 1
           \<and> 0 \<le> social_score c \<and> social_score c \<le> 1
           \<and> 0 \<le> personal_score c \<and> personal_score c \<le> 1"
proof -
  have range: "\<bar>total_engagement (public_metrics content)\<bar> < float_limit"
    using assms(2,3) by simp
  obtain c where c: "RuleBasedClassifier_classify content = Inr c"
    by (simp add: RuleBasedClassifier_classify_def Let_def
        calculate_social_score_in_range [OF range])
  have a: "AIClassifier_classify float_of_str reply content = Inr c"
    using assms(1) c by (simp add: AIClassifier_classify_def)
  have cat: "category c \<in> {PERSONAL, WORK, HOBBY, NEWS, IMPORTANT, OTHER}"
    by (cases "category c") simp_all
  from rule_based_scores_in_range [OF c] assms(2) a c cat show ?thesis
    by (intro exI [of _ c]) simp
qed

lemma sample_item_engagement: "total_engagement (public_metrics sample_item) = 0"
  by (simp add: total_engagement_def get_default_def sample_item_def)

theorem ai_failure_falls_back_to_rules_witness:
  "AIClassifier_try rejects_all bad_category_reply
     = Inl (ValueError (ascii ''is not a valid CategoryType''))
   \<and> 0 \<le> total_engagement (public_metrics sample_item)
   \<and> total_engagement (public_metrics sample_item) < float_limit
   \<and> (\<exists>c. AIClassifier_classify rejects_all bad_category_reply sample_item = Inr c
           \<and> RuleBasedClassifier_classify sample_item = Inr c
           \<and> 0 \<le> social_score c \<and> social_score c \<le> 1)"
proof -
  have 1: "0 \<le> total_engagement (public_metrics sample_item)"
    by (simp add: sample_item_engagement)
  have 2: "total_engagement (public_metrics sample_item) < float_limit"
    using float_limit_large by (simp add: sample_item_engagement)
  from ai_failure_falls_back_to_rules [OF ai_try_bad_category 1 2, of rejects_all]
    ai_try_bad_category [of rejects_all] 1 2
  show ?thesis by blast
qed

section \<open>The briefing state machine\<close>

lemma first_SomeD: "first P rows = Some r \<Longrightarrow> P r \<and> r \<in> set rows"
proof -
  assume a: "first P rows = Some r"
  then obtain rest where "filter P rows = r # rest"
    by (auto simp: first_def split: list.splits)
  then have "r \<in> set (filter P rows)" by simp
  then show ?thesis by simp
qed

lemma existing_briefingD:
  "existing_briefing db uid d = Some b \<Longrightarrow>
     b \<in> set (briefings db) \<and> b_user_id b = uid \<and> b_date b = d"
  unfolding existing_briefing_def by (drule first_SomeD) simp


lemma update_briefing_member:
  "r \<in> set (briefings db) \<Longrightarrow> b_id r = b_id b \<Longrightarrow> b \<in> set (briefings (update_briefing b db))"
  by (force simp: update_briefing_def)

lemma briefing_content_update_briefing:
  "briefing_content (update_briefing b db) = briefing_content db"
  by (simp add: update_briefing_def)

lemma briefing_content_add_briefing:
  "briefing_content (add_briefing b db) = briefing_content db"
  by (simp add: add_briefing_def)

text \<open>
  The selector raises inside the inner \<open>try\<close>, so every generation run that gets that far
  ends in the handler: FAILED, with the text of the ImportError.
\<close>

lemma run_generation_import_error:
  "run_generation env db user briefing
     = (mark_failed db briefing (str_exn ImportError), Some (b_id briefing))"
  by (simp add: run_generation_def selector_import_error)

text \<open>A DELIVERED briefing ends the task before anything is written.\<close>

lemma generate_briefing_store_delivered:
  assumes "existing_briefing db uid d = Some b" and "b_status b = DELIVERED"
    and "date_arg = IsoDate d \<or> (date_arg = NoDate \<and> today env = d)"
  shows "fst (generate_briefing env db uid date_arg) = db"
proof (cases "first (\<lambda>u. user_id u = uid \<and> deleted_at u = None) (users db)")
  case None
  then show ?thesis by (simp add: generate_briefing_def)
next
  case (Some user)
  then have "user_id user = uid" by (auto dest: first_SomeD)
  with Some assms show ?thesis
    by (auto simp: generate_briefing_def Let_def)
qed

lemma generate_briefing_delivered:
  assumes "existing_briefing db uid d = Some b" and "b_status b = DELIVERED"
    and "date_arg = IsoDate d \<or> (date_arg = NoDate \<and> today env = d)"
    and "first (\<lambda>u. user_id u = uid \<and> deleted_at u = None) (users db) = Some user"
    and "user_is_active user"
  shows "generate_briefing env db uid date_arg = (db, Some (b_id b))"
proof -
  have "user_id user = uid" using assms(4) by (auto dest: first_SomeD)
  with assms show ?thesis
    by (auto simp: generate_briefing_def Let_def)
qed

text \<open>The user check comes first: without an active user the task returns None.\<close>

lemma generate_briefing_no_active_user:
  assumes "first (\<lambda>u. user_id u = uid \<and> deleted_at u = None) (users db) = None
           \<or> (first (\<lambda>u. user_id u = uid \<and> deleted_at u = None) (users db) = Some user
               \<and> \<not> user_is_active user)"
  shows "generate_briefing env db uid date_arg = (db, None)"
  using assms by (auto simp: generate_briefing_def)

lemma trigger_delivered:
  assumes "existing_briefing db (user_id current_user) d = Some b" and "b_status b = DELIVERED"
    and "target = Some d \<or> (target = None \<and> today_date = d)"
  shows "trigger_briefing_generation db today_date current_user target = (db, b, False)"
  using assms by (auto simp: trigger_briefing_generation_def Let_def)

lemma delivered_db_existing: "existing_briefing delivered_db 1 5 = Some delivered_briefing"
  by (simp add: existing_briefing_def first_def delivered_db_def delivered_briefing_def)

lemma delivered_db_user:
  "first (\<lambda>u. user_id u = 1 \<and> deleted_at u = None) (users delivered_db) = Some sample_user"
  by (simp add: first_def delivered_db_def plain_db_def sample_db_def sample_user_def)

lemma delivered_briefing_status: "b_status delivered_briefing = DELIVERED"
  by (simp add: delivered_briefing_def)

lemma inactive_db_existing:
  "existing_briefing inactive_delivered_db 1 5 = Some delivered_briefing"
  by (simp add: existing_briefing_def first_def inactive_delivered_db_def delivered_db_def
      delivered_briefing_def)

lemma inactive_db_user:
  "first (\<lambda>u. user_id u = 1 \<and> deleted_at u = None) (users inactive_delivered_db)
     = Some inactive_user"
  by (simp add: first_def inactive_delivered_db_def inactive_user_def sample_user_def)

lemma inactive_user_inactive: "\<not> user_is_active inactive_user"
  by (simp add: inactive_user_def)

text \<open>
  Claim C4, as stated, for a user who is no longer active and whose briefing of day 5 is
  DELIVERED: the task's user check comes before its DELIVERED check, so the trigger
  returns None and not the existing briefing (the store stays as it is).
\<close>

theorem inactive_user_delivered_counterexample:
  "existing_briefing inactive_delivered_db 1 5 = Some delivered_briefing
   \<and> b_status delivered_briefing = DELIVERED
   \<and> generate_briefing sample_env inactive_delivered_db 1 (IsoDate 5)
       = (inactive_delivered_db, None)"
  using inactive_db_existing delivered_briefing_status
    generate_briefing_no_active_user [of 1 inactive_delivered_db inactive_user sample_env "IsoDate 5"]
    inactive_db_user inactive_user_inactive
  by simp

text \<open>
  Claim C4, amended: when the briefing of a (user, date) has status DELIVERED, a further
  generation trigger for that user and date is a no-op on the store: no field of a
  Briefing changes and no Briefing row is created. The endpoint returns the existing
  record and queues no task; the task returns the id of the existing briefing when the
  user exists and is active, and None when the user is missing, deleted or inactive.
\<close>

theorem delivered_briefing_is_terminal:
  assumes "existing_briefing db uid d = Some b" and "b_status b = DELIVERED"
  shows "(date_arg = IsoDate d \<or> (date_arg = NoDate \<and> today env = d)
            \<longrightarrow> fst (generate_briefing env db uid date_arg) = db)
         \<and> ((date_arg = IsoDate d \<or> (date_arg = NoDate \<and> today env = d))
              \<and> first (\<lambda>u. user_id u = uid \<and> deleted_at u = None) (users db) = Some user
              \<and> user_is_active user
            \<longrightarrow> generate_briefing env db uid date_arg = (db, Some (b_id b)))
         \<and> (first (\<lambda>u. user_id u = uid \<and> deleted_at u = None) (users db) = None
              \<or> (first (\<lambda>u. user_id u = uid \<and> deleted_at u = None) (users db) = Some user
                  \<and> \<not> user_is_active user)
            \<longrightarrow> generate_briefing env db uid date_arg = (db, None))
         \<and> (user_id current_user = uid
              \<and> (target = Some d \<or> (target = None \<and> today_date = d))
            \<longrightarrow> trigger_briefing_generation db today_date current_user target = (db, b, False))"
  using generate_briefing_store_delivered [OF assms, of date_arg env]
    generate_briefing_delivered [OF assms, of date_arg env user]
    generate_briefing_no_active_user [of uid db user env date_arg]
    trigger_delivered [of db current_user d b target today_date] assms
  by blast

theorem delivered_briefing_is_terminal_witness:
  "existing_briefing delivered_db 1 5 = Some delivered_briefing
   \<and> b_status delivered_briefing = DELIVERED
   \<and> first (\<lambda>u. user_id u = 1 \<and> deleted_at u = None) (users delivered_db) = Some sample_user
   \<and> user_is_active sample_user \<and> user_id sample_user = 1
   \<and> fst (generate_briefing sample_env delivered_db 1 (IsoDate 5)) = delivered_db
   \<and> generate_briefing sample_env delivered_db 1 (IsoDate 5)
       = (delivered_db, Some (b_id delivered_briefing))
   \<and> trigger_briefing_generation delivered_db 5 sample_user (Some 5)
       = (delivered_db, delivered_briefing, False)
   \<and> existing_briefing inactive_delivered_db 1 5 = Some delivered_briefing
   \<and> first (\<lambda>u. user_id u = 1 \<and> deleted_at u = None) (users inactive_delivered_db)
       = Some inactive_user
   \<and> \<not> user_is_active inactive_user
   \<and> generate_briefing sample_env inactive_delivered_db 1 (IsoDate 5)
       = (inactive_delivered_db, None)"
proof -
  have u: "user_is_active sample_user" "user_id sample_user = 1"
    by (simp_all add: sample_user_def)
  have a: "fst (generate_briefing sample_env delivered_db 1 (IsoDate 5)) = delivered_db
     \<and> generate_briefing sample_env delivered_db 1 (IsoDate 5)
         = (delivered_db, Some (b_id delivered_briefing))
     \<and> trigger_briefing_generation delivered_db 5 sample_user (Some 5)
         = (delivered_db, delivered_briefing, False)"
    using delivered_briefing_is_terminal [OF delivered_db_existing delivered_briefing_status,
        of "IsoDate 5" sample_env sample_user sample_user "Some 5" 5]
      delivered_db_user u
    by simp
  have b: "generate_briefing sample_env inactive_delivered_db 1 (IsoDate 5)
             = (inactive_delivered_db, None)"
    using delivered_briefing_is_terminal [OF inactive_db_existing delivered_briefing_status,
        of "IsoDate 5" sample_env inactive_user sample_user "Some 5" 5]
      inactive_db_user inactive_user_inactive
    by simp
  from a b delivered_db_existing delivered_briefing_status delivered_db_user u
    inactive_db_existing inactive_db_user inactive_user_inactive
  show ?thesis by simp
qed

section \<open>Generation without candidates\<close>

lemma no_content_message_nonempty: "no_content_message \<noteq> []"
  by (simp add: no_content_message_def ascii_def)

lemma import_text_is_not_no_content: "str_exn ImportError \<noteq> no_content_message"
  by code_simp

lemma plain_db_user:
  "first (\<lambda>u. user_id u = 1 \<and> deleted_at u = None) (users plain_db) = Some sample_user"
  by (simp add: first_def plain_db_def sample_db_def sample_user_def)

lemma plain_db_no_briefing: "existing_briefing plain_db 1 5 = None"
  by (simp add: existing_briefing_def first_def plain_db_def sample_db_def)

lemma plain_db_generate:
  "fst (generate_briefing sample_env plain_db 1 (IsoDate 5))
     = mark_failed (add_briefing (new_briefing plain_db 1 5) plain_db)
         (new_briefing plain_db 1 5) (str_exn ImportError)"
proof -
  have u: "user_is_active sample_user" "user_id sample_user = 1"
    by (simp_all add: sample_user_def)
  show ?thesis
    using plain_db_user plain_db_no_briefing u
    by (simp add: generate_briefing_def Let_def run_generation_import_error)
qed

lemma plain_db_generated_rows:
  "map b_status (briefings (mark_failed (add_briefing (new_briefing plain_db 1 5) plain_db)
                              (new_briefing plain_db 1 5) (str_exn ImportError))) = [FAILED]"
  "map b_error_message
     (briefings (mark_failed (add_briefing (new_briefing plain_db 1 5) plain_db)
                   (new_briefing plain_db 1 5) (str_exn ImportError)))
     = [Some (str_exn ImportError)]"
  "briefing_content (mark_failed (add_briefing (new_briefing plain_db 1 5) plain_db)
                       (new_briefing plain_db 1 5) (str_exn ImportError)) = []"
  by (simp_all add: mark_failed_def update_briefing_def add_briefing_def new_briefing_def
      plain_db_def sample_db_def)

text \<open>
  Claim C5 at an active user without a briefing for the day and without candidates (the
  one classified item has relevance 0, below the threshold 0.3): the claim is a FAILED
  briefing whose error message states that no content is available. The selector raises
  ImportError inside the inner \<open>try\<close>, so the branch that sets "No content available for
  briefing" is not reached: the briefing is FAILED with the text of the ImportError as
  its error message. No link row is written.
\<close>

theorem no_candidates_failed_with_import_error:
  "min_relevance_for plain_db sample_user = Some (3 / 10)
   \<and> candidates plain_db sample_user (utcnow sample_env) (3 / 10) = []
   \<and> map b_status (briefings (fst (generate_briefing sample_env plain_db 1 (IsoDate 5))))
       = [FAILED]
   \<and> map b_error_message (briefings (fst (generate_briefing sample_env plain_db 1 (IsoDate 5))))
       = [Some (str_exn ImportError)]
   \<and> str_exn ImportError \<noteq> no_content_message
   \<and> briefing_content (fst (generate_briefing sample_env plain_db 1 (IsoDate 5))) = []"
proof -
  have c: "candidates plain_db sample_user (utcnow sample_env) (3 / 10) = []"
    using plain_candidates by (simp add: sample_env_def)
  show ?thesis
    unfolding plain_db_generate plain_db_generated_rows
    using plain_threshold c import_text_is_not_no_content by simp
qed

section \<open>Status changes\<close>














section \<open>Reconciliation counts\<close>

lemma existing_item_modify [simp]: "existing_item (modify_item k f s) = existing_item s"
  by (simp add: existing_item_def modify_item_def fun_eq_iff)

lemma existing_item_add [simp]: "existing_item (add_item i s) = existing_item s"
  by (simp add: existing_item_def add_item_def fun_eq_iff)

text \<open>
  The Twitter loop, when it ends without an exception, has counted as new the tweets whose
  (source, external_id) is not in the store, and as updated the others.
\<close>

lemma twitter_items_counts:
  "twitter_items source username tweets s n u = (s', Inr (n', u')) \<Longrightarrow>
     n' = n + length (filter (\<lambda>t. existing_item s source (tw_id t) = None) tweets)
     \<and> u' = u + length (filter (\<lambda>t. existing_item s source (tw_id t) \<noteq> None) tweets)"
proof (induction tweets arbitrary: s n u)
  case Nil
  then show ?case by simp
next
  case (Cons t ts)
  show ?case
  proof (cases "existing_item s source (tw_id t)")
    case (Some found)
    with Cons.prems Cons.IH show ?thesis by fastforce
  next
    case None
    show ?thesis
    proof (cases "tw_created_at t")
      case (Inl e)
      with None Cons.prems show ?thesis by simp
    next
      case (Inr published)
      with None Cons.prems Cons.IH show ?thesis by fastforce
    qed
  qed
qed

text \<open>The Telegram loop skips an update without a message before it counts anything.\<close>

lemma telegram_items_counts:
  "telegram_items source now updates s n u = (s', Inr (n', u')) \<Longrightarrow>
     n' = n + length (filter (\<lambda>up. case up of None \<Rightarrow> False
                                  | Some m \<Rightarrow> existing_item s source (tg_message_id m) = None)
                       updates)
     \<and> u' = u + length (filter (\<lambda>up. case up of None \<Rightarrow> False
                                  | Some m \<Rightarrow> existing_item s source (tg_message_id m) \<noteq> None)
                         updates)"
proof (induction source now updates s n u rule: telegram_items.induct)
  case (1 source now s n u)
  then show ?case by simp
next
  case (2 source now ups s n u)
  then show ?case by simp
next
  case (3 source now m ups s n u)
  then show ?case
    by (cases "existing_item s source (tg_message_id m)") fastforce+
qed

lemma finish_sync_InrD:
  "finish_sync fetched r = (s', Inr (f, n, u)) \<Longrightarrow>
     f = fetched \<and> (\<exists>s. r = (s, Inr (n, u)))"
  by (auto simp: finish_sync_def split: prod.splits sum.splits)

lemma sync_twitter_source_counts:
  assumes "sync_twitter_source P now s source = (s', Inr (f, n, u))"
    and "require_credentials ''Twitter'' source = Inr creds"
    and "decrypted P creds ''access_token'' = Inr token"
    and "get_user_timeline P token (map_of creds ''twitter_user_id'') (window_start source now)
           = Inr tweets"
  shows "f = length tweets
         \<and> n = length (filter (\<lambda>t. existing_item s source (tw_id t) = None) tweets)
         \<and> u = length (filter (\<lambda>t. existing_item s source (tw_id t) \<noteq> None) tweets)"
proof -
  have "finish_sync (length tweets)
          (twitter_items source (map_of creds ''twitter_username'') tweets s 0 0)
        = (s', Inr (f, n, u))"
    using assms by (simp add: sync_twitter_source_def)
  from finish_sync_InrD [OF this] obtain s1 where
    "f = length tweets"
    "twitter_items source (map_of creds ''twitter_username'') tweets s 0 0 = (s1, Inr (n, u))"
    by blast
  then show ?thesis
    using twitter_items_counts [of source _ tweets s 0 0 s1 n u]
    by (simp del: not_None_eq)
qed

lemma sync_telegram_source_counts:
  assumes "sync_telegram_source P now s source = (s', Inr (f, n, u))"
    and "require_credentials ''Telegram'' source = Inr creds"
    and "decrypted P creds ''bot_token'' = Inr token"
    and "get_updates P token (last_sync_at source) = Inr updates"
  shows "f = length updates
         \<and> n = length (filter (\<lambda>up. case up of None \<Rightarrow> False
                                  | Some m \<Rightarrow> existing_item s source (tg_message_id m) = None)
                         updates)
         \<and> u = length (filter (\<lambda>up. case up of None \<Rightarrow> False
                                  | Some m \<Rightarrow> existing_item s source (tg_message_id m) \<noteq> None)
                         updates)"
proof -
  have "finish_sync (length updates) (telegram_items source now updates s 0 0)
        = (s', Inr (f, n, u))"
    using assms by (simp add: sync_telegram_source_def)
  from finish_sync_InrD [OF this] obtain s1 where
    "f = length updates"
    "telegram_items source now updates s 0 0 = (s1, Inr (n, u))"
    by blast
  then show ?thesis
    using telegram_items_counts [of source now updates s 0 0 s1 n u]
    by (simp del: not_None_eq)
qed

lemma rss_items_counts:
  "rss_items source items s n u = (s', Inr (n', u')) \<Longrightarrow>
     n' = n + length (filter (\<lambda>d. existing_item s source (fi_external_id d) = None) items)
     \<and> u' = u + length (filter (\<lambda>d. existing_item s source (fi_external_id d) \<noteq> None) items)"
proof (induction items arbitrary: s n u)
  case Nil
  then show ?case by simp
next
  case (Cons d ds)
  then show ?case
    by (cases "existing_item s source (fi_external_id d)") fastforce+
qed

lemma facebook_items_counts:
  "facebook_items source now posts s n u = (s', Inr (n', u')) \<Longrightarrow>
     n' = n + length (filter (\<lambda>p. existing_item s source (fb_id p) = None) posts)
     \<and> u' = u + length (filter (\<lambda>p. existing_item s source (fb_id p) \<noteq> None) posts)"
proof (induction posts arbitrary: s n u)
  case Nil
  then show ?case by simp
next
  case (Cons p ps)
  show ?case
  proof (cases "existing_item s source (fb_id p)")
    case (Some found)
    with Cons.prems Cons.IH show ?thesis by fastforce
  next
    case None
    show ?thesis
    proof (cases "case fb_created_time p of None \<Rightarrow> Inr now | Some parsed \<Rightarrow> parsed")
      case (Inl e)
      with None Cons.prems show ?thesis by simp
    next
      case (Inr published)
      with None Cons.prems Cons.IH show ?thesis by fastforce
    qed
  qed
qed

lemma instagram_items_counts:
  "instagram_items source now media s n u = (s', Inr (n', u')) \<Longrightarrow>
     n' = n + length (filter (\<lambda>m. existing_item s source (ig_id m) = None) media)
     \<and> u' = u + length (filter (\<lambda>m. existing_item s source (ig_id m) \<noteq> None) media)"
proof (induction media arbitrary: s n u)
  case Nil
  then show ?case by simp
next
  case (Cons m ms)
  show ?case
  proof (cases "existing_item s source (ig_id m)")
    case (Some found)
    with Cons.prems Cons.IH show ?thesis by fastforce
  next
    case None
    show ?thesis
    proof (cases "case ig_timestamp m of None \<Rightarrow> Inr now | Some parsed \<Rightarrow> parsed")
      case (Inl e)
      with None Cons.prems show ?thesis by simp
    next
      case (Inr published)
      with None Cons.prems Cons.IH show ?thesis by fastforce
    qed
  qed
qed

lemma sync_rss_source_counts:
  assumes "sync_rss_source P s source = (s', Inr (f, n, u))"
    and "feed_url source = Some feed"
  shows "f = length (parse_feed P feed)
         \<and> n = length (filter (\<lambda>d. existing_item s source (fi_external_id d) = None)
                         (parse_feed P feed))
         \<and> u = length (filter (\<lambda>d. existing_item s source (fi_external_id d) \<noteq> None)
                         (parse_feed P feed))"
proof -
  have "finish_sync (length (parse_feed P feed)) (rss_items source (parse_feed P feed) s 0 0)
        = (s', Inr (f, n, u))"
    using assms by (simp add: sync_rss_source_def Let_def)
  from finish_sync_InrD [OF this] obtain s1 where
    "f = length (parse_feed P feed)"
    "rss_items source (parse_feed P feed) s 0 0 = (s1, Inr (n, u))"
    by blast
  then show ?thesis
    using rss_items_counts [of source "parse_feed P feed" s 0 0 s1 n u]
    by (simp del: not_None_eq)
qed

lemma sync_facebook_source_counts:
  assumes "sync_facebook_source P now s source = (s', Inr (f, n, u))"
    and "require_credentials ''Facebook'' source = Inr creds"
    and "decrypted P creds ''access_token'' = Inr token"
    and "get_user_feed P token (window_start source now) = Inr posts"
  shows "f = length posts
         \<and> n = length (filter (\<lambda>p. existing_item s source (fb_id p) = None) posts)
         \<and> u = length (filter (\<lambda>p. existing_item s source (fb_id p) \<noteq> None) posts)"
proof -
  have "finish_sync (length posts) (facebook_items source now posts s 0 0)
        = (s', Inr (f, n, u))"
    using assms by (simp add: sync_facebook_source_def)
  from finish_sync_InrD [OF this] obtain s1 where
    "f = length posts"
    "facebook_items source now posts s 0 0 = (s1, Inr (n, u))"
    by blast
  then show ?thesis
    using facebook_items_counts [of source now posts s 0 0 s1 n u]
    by (simp del: not_None_eq)
qed

lemma sync_instagram_source_counts:
  assumes "sync_instagram_source P now s source = (s', Inr (f, n, u))"
    and "require_credentials ''Instagram'' source = Inr creds"
    and "decrypted P creds ''access_token'' = Inr token"
    and "get_user_media P token = Inr media"
  shows "f = length media
         \<and> n = length (filter (\<lambda>m. existing_item s source (ig_id m) = None) media)
         \<and> u = length (filter (\<lambda>m. existing_item s source (ig_id m) \<noteq> None) media)"
proof -
  have "finish_sync (length media) (instagram_items source now media s 0 0)
        = (s', Inr (f, n, u))"
    using assms by (simp add: sync_instagram_source_def)
  from finish_sync_InrD [OF this] obtain s1 where
    "f = length media"
    "instagram_items source now media s 0 0 = (s1, Inr (n, u))"
    by blast
  then show ?thesis
    using instagram_items_counts [of source now media s 0 0 s1 n u]
    by (simp del: not_None_eq)
qed

text \<open>The scenario: a first poll of three tweets into an empty store, then a second poll.\<close>

lemma first_poll_log:
  "sync_logs (sync_data_source first_poll 2000 2001 empty_db 1)
     = [\<lparr> sl_source_id = 1, sl_status = SUCCESS, items_fetched = 3, items_new = 3,
           items_updated = 0, sl_error_message = None, started_at = 2000,
           completed_at = 2001 \<rparr>]"
  by code_simp

lemma first_poll_items:
  "map external_id (content_items (sync_data_source first_poll 2000 2001 empty_db 1))
     = [ascii ''a'', ascii ''b'', ascii ''c'']"
  by code_simp

lemma second_poll_log:
  "sync_logs (sync_data_source second_poll 3000 3001
                (sync_data_source first_poll 2000 2001 empty_db 1) 1)
     = [\<lparr> sl_source_id = 1, sl_status = SUCCESS, items_fetched = 3, items_new = 3,
           items_updated = 0, sl_error_message = None, started_at = 2000,
           completed_at = 2001 \<rparr>,
        \<lparr> sl_source_id = 1, sl_status = SUCCESS, items_fetched = 3, items_new = 2,
           items_updated = 1, sl_error_message = None, started_at = 3000,
           completed_at = 3001 \<rparr>]"
  by code_simp

lemma second_poll_items:
  "map external_id
     (content_items (sync_data_source second_poll 3000 3001
                       (sync_data_source first_poll 2000 2001 empty_db 1) 1))
     = [ascii ''a'', ascii ''b'', ascii ''c'', ascii ''d'', ascii ''e'']"
  by code_simp

text \<open>
  Claim C6, as stated, for a Telegram source with an empty store whose poll returns one
  update that carries no message: the run reports fetched = 1, and the update is counted
  neither as new nor as updated.
\<close>

theorem telegram_update_without_message_counterexample:
  "content_items empty_db = []
   \<and> get_updates telegram_poll (ascii ''k'') (last_sync_at telegram_source) = Inr [None]
   \<and> snd (sync_telegram_source telegram_poll 2001 (fresh_session empty_db) telegram_source)
       = Inr (1, 0, 0)"
  by code_simp

text \<open>
  Claim C6, amended: every reconciliation run that completes (Twitter, RSS, Telegram,
  Facebook, Instagram) reports fetched_count equal to the number of items received. The
  Twitter, RSS, Facebook and Instagram runs count each item as new exactly when the store
  holds no ContentItem with its (source, external_id) and as updated otherwise; the
  Telegram run counts in the same way the updates that carry a message, while an update
  without a message is counted as fetched only. A run of 3 fresh tweets on an empty
  source reports (fetched=3, new=3, updated=0), and a following run with 1 repeated
  external_id and 2 new ones reports (fetched=3, new=2, updated=1), with 5 ContentItems
  in total.
\<close>

theorem reconciliation_counts:
  "(sync_twitter_source P now s source = (s_out, Inr (f, n, u))
      \<and> require_credentials ''Twitter'' source = Inr creds
      \<and> decrypted P creds ''access_token'' = Inr token
      \<and> get_user_timeline P token (map_of creds ''twitter_user_id'') (window_start source now)
          = Inr tweets
    \<longrightarrow> f = length tweets
        \<and> n = length (filter (\<lambda>t. existing_item s source (tw_id t) = None) tweets)
        \<and> u = length (filter (\<lambda>t. existing_item s source (tw_id t) \<noteq> None) tweets))
   \<and> (sync_rss_source P s source = (s_out, Inr (f, n, u))
      \<and> feed_url source = Some feed
    \<longrightarrow> f = length (parse_feed P feed)
        \<and> n = length (filter (\<lambda>d. existing_item s source (fi_external_id d) = None)
                        (parse_feed P feed))
        \<and> u = length (filter (\<lambda>d. existing_item s source (fi_external_id d) \<noteq> None)
                        (parse_feed P feed)))
   \<and> (sync_telegram_source P now s source = (s_out, Inr (f, n, u))
      \<and> require_credentials ''Telegram'' source = Inr creds
      \<and> decrypted P creds ''bot_token'' = Inr token
      \<and> get_updates P token (last_sync_at source) = Inr updates
    \<longrightarrow> f = length updates
        \<and> n = length (filter (\<lambda>up. case up of None \<Rightarrow> False
                                 | Some m \<Rightarrow> existing_item s source (tg_message_id m) = None)
                        updates)
        \<and> u = length (filter (\<lambda>up. case up of None \<Rightarrow> False
                                 | Some m \<Rightarrow> existing_item s source (tg_message_id m) \<noteq> None)
                        updates))
   \<and> (sync_facebook_source P now s source = (s_out, Inr (f, n, u))
      \<and> require_credentials ''Facebook'' source = Inr creds
      \<and> decrypted P creds ''access_token'' = Inr token
      \<and> get_user_feed P token (window_start source now) = Inr posts
    \<longrightarrow> f = length posts
        \<and> n = length (filter (\<lambda>p. existing_item s source (fb_id p) = None) posts)
        \<and> u = length (filter (\<lambda>p. existing_item s source (fb_id p) \<noteq> None) posts))
   \<and> (sync_instagram_source P now s source = (s_out, Inr (f, n, u))
      \<and> require_credentials ''Instagram'' source = Inr creds
      \<and> decrypted P creds ''access_token'' = Inr token
      \<and> get_user_media P token = Inr media
    \<longrightarrow> f = length media
        \<and> n = length (filter (\<lambda>m. existing_item s source (ig_id m) = None) media)
        \<and> u = length (filter (\<lambda>m. existing_item s source (ig_id m) \<noteq> None) media))
   \<and> map (\<lambda>l. (items_fetched l, items_new l, items_updated l))
        (sync_logs (sync_data_source first_poll 2000 2001 empty_db 1)) = [(3, 3, 0)]
   \<and> length (content_items (sync_data_source first_poll 2000 2001 empty_db 1)) = 3
   \<and> map (\<lambda>l. (items_fetched l, items_new l, items_updated l))
        (sync_logs (sync_data_source second_poll 3000 3001
                      (sync_data_source first_poll 2000 2001 empty_db 1) 1))
       = [(3, 3, 0), (3, 2, 1)]
   \<and> length (content_items (sync_data_source second_poll 3000 3001
                                (sync_data_source first_poll 2000 2001 empty_db 1) 1)) = 5"
proof -
  have a: "length (content_items (sync_data_source first_poll 2000 2001 empty_db 1)) = 3"
    using arg_cong [OF first_poll_items, of length] by simp
  have b: "length (content_items (sync_data_source second_poll 3000 3001
                                (sync_data_source first_poll 2000 2001 empty_db 1) 1)) = 5"
    using arg_cong [OF second_poll_items, of length] by simp
  show ?thesis
    using sync_twitter_source_counts [of P now s source s_out f n u creds token tweets]
      sync_rss_source_counts [of P s source s_out f n u feed]
      sync_telegram_source_counts [of P now s source s_out f n u creds token updates]
      sync_facebook_source_counts [of P now s source s_out f n u creds token posts]
      sync_instagram_source_counts [of P now s source s_out f n u creds token media]
      a b
    by (simp only: first_poll_log second_poll_log) (simp del: not_None_eq)
qed

lemma first_poll_twitter_run:
  "snd (sync_twitter_source first_poll 2001 (fresh_session empty_db) sample_source)
     = Inr (3, 3, 0)"
  by code_simp

lemma sample_source_credentials:
  "require_credentials ''Twitter'' sample_source = Inr [(''access_token'', ascii ''k'')]"
  by code_simp

lemma first_poll_token:
  "decrypted first_poll [(''access_token'', ascii ''k'')] ''access_token'' = Inr (ascii ''k'')"
  by code_simp

lemma first_poll_timeline:
  "get_user_timeline first_poll (ascii ''k'')
     (map_of [(''access_token'', ascii ''k'')] ''twitter_user_id'')
     (window_start sample_source 2001)
     = Inr [tweet_at ''a'' 1100, tweet_at ''b'' 1200, tweet_at ''c'' 1300]"
  by code_simp

lemma telegram_poll_run:
  "snd (sync_telegram_source mixed_poll 2001 (fresh_session empty_db) telegram_source)
     = Inr (2, 1, 0)"
  by code_simp

lemma telegram_source_credentials:
  "require_credentials ''Telegram'' telegram_source = Inr [(''bot_token'', ascii ''k'')]"
  by code_simp

lemma mixed_poll_bot_token:
  "decrypted mixed_poll [(''bot_token'', ascii ''k'')] ''bot_token'' = Inr (ascii ''k'')"
  by code_simp

lemma mixed_poll_updates:
  "get_updates mixed_poll (ascii ''k'') (last_sync_at telegram_source)
     = Inr [None, Some sample_message]"
  by code_simp

lemma rss_poll_run:
  "snd (sync_rss_source mixed_poll (fresh_session rss_db) rss_source) = Inr (1, 1, 0)"
  by code_simp

lemma rss_source_feed: "feed_url rss_source = Some (ascii ''http://example.org/feed'')"
  by code_simp

lemma mixed_poll_feed:
  "parse_feed mixed_poll (ascii ''http://example.org/feed'') = [sample_feed_item]"
  by code_simp

lemma facebook_poll_run:
  "snd (sync_facebook_source mixed_poll 2001 (fresh_session empty_db) facebook_source)
     = Inr (1, 1, 0)"
  by code_simp

lemma facebook_source_credentials:
  "require_credentials ''Facebook'' facebook_source = Inr [(''access_token'', ascii ''k'')]"
  by code_simp

lemma mixed_poll_token:
  "decrypted mixed_poll [(''access_token'', ascii ''k'')] ''access_token'' = Inr (ascii ''k'')"
  by code_simp

lemma mixed_poll_posts:
  "get_user_feed mixed_poll (ascii ''k'') (window_start facebook_source 2001) = Inr [sample_post]"
  by code_simp

lemma instagram_poll_run:
  "snd (sync_instagram_source mixed_poll 2001 (fresh_session empty_db) instagram_source)
     = Inr (1, 1, 0)"
  by code_simp

lemma instagram_source_credentials:
  "require_credentials ''Instagram'' instagram_source = Inr [(''access_token'', ascii ''k'')]"
  by code_simp

lemma mixed_poll_media: "get_user_media mixed_poll (ascii ''k'') = Inr [sample_media]"
  by code_simp

theorem reconciliation_counts_witness:
  "snd (sync_twitter_source first_poll 2001 (fresh_session empty_db) sample_source)
     = Inr (3, 3, 0)
   \<and> require_credentials ''Twitter'' sample_source = Inr [(''access_token'', ascii ''k'')]
   \<and> decrypted first_poll [(''access_token'', ascii ''k'')] ''access_token'' = Inr (ascii ''k'')
   \<and> get_user_timeline first_poll (ascii ''k'')
        (map_of [(''access_token'', ascii ''k'')] ''twitter_user_id'')
        (window_start sample_source 2001)
       = Inr [tweet_at ''a'' 1100, tweet_at ''b'' 1200, tweet_at ''c'' 1300]
   \<and> (3::nat) = length [tweet_at ''a'' 1100, tweet_at ''b'' 1200, tweet_at ''c'' 1300]
   \<and> (3::nat) = length (filter (\<lambda>t. existing_item (fresh_session empty_db) sample_source
                                        (tw_id t) = None)
                          [tweet_at ''a'' 1100, tweet_at ''b'' 1200, tweet_at ''c'' 1300])
   \<and> snd (sync_rss_source mixed_poll (fresh_session rss_db) rss_source) = Inr (1, 1, 0)
   \<and> feed_url rss_source = Some (ascii ''http://example.org/feed'')
   \<and> (1::nat) = length (parse_feed mixed_poll (ascii ''http://example.org/feed''))
   \<and> snd (sync_telegram_source mixed_poll 2001 (fresh_session empty_db) telegram_source)
       = Inr (2, 1, 0)
   \<and> require_credentials ''Telegram'' telegram_source = Inr [(''bot_token'', ascii ''k'')]
   \<and> decrypted mixed_poll [(''bot_token'', ascii ''k'')] ''bot_token'' = Inr (ascii ''k'')
   \<and> get_updates mixed_poll (ascii ''k'') (last_sync_at telegram_source)
       = Inr [None, Some sample_message]
   \<and> (2::nat) = length [None, Some sample_message]
   \<and> snd (sync_facebook_source mixed_poll 2001 (fresh_session empty_db) facebook_source)
       = Inr (1, 1, 0)
   \<and> require_credentials ''Facebook'' facebook_source = Inr [(''access_token'', ascii ''k'')]
   \<and> decrypted mixed_poll [(''access_token'', ascii ''k'')] ''access_token'' = Inr (ascii ''k'')
   \<and> get_user_feed mixed_poll (ascii ''k'') (window_start facebook_source 2001)
       = Inr [sample_post]
   \<and> (1::nat) = length [sample_post]
   \<and> snd (sync_instagram_source mixed_poll 2001 (fresh_session empty_db) instagram_source)
       = Inr (1, 1, 0)
   \<and> require_credentials ''Instagram'' instagram_source = Inr [(''access_token'', ascii ''k'')]
   \<and> get_user_media mixed_poll (ascii ''k'') = Inr [sample_media]
   \<and> (1::nat) = length [sample_media]"
proof -
  let ?tw = "sync_twitter_source first_poll 2001 (fresh_session empty_db) sample_source"
  let ?rs = "sync_rss_source mixed_poll (fresh_session rss_db) rss_source"
  let ?tg = "sync_telegram_source mixed_poll 2001 (fresh_session empty_db) telegram_source"
  let ?fb = "sync_facebook_source mixed_poll 2001 (fresh_session empty_db) facebook_source"
  let ?ig = "sync_instagram_source mixed_poll 2001 (fresh_session empty_db) instagram_source"
  have tw: "?tw = (fst ?tw, Inr (3, 3, 0))"
    using first_poll_twitter_run by (metis prod.collapse)
  have rs: "?rs = (fst ?rs, Inr (1, 1, 0))"
    using rss_poll_run by (metis prod.collapse)
  have tg: "?tg = (fst ?tg, Inr (2, 1, 0))"
    using telegram_poll_run by (metis prod.collapse)
  have fb: "?fb = (fst ?fb, Inr (1, 1, 0))"
    using facebook_poll_run by (metis prod.collapse)
  have ig: "?ig = (fst ?ig, Inr (1, 1, 0))"
    using instagram_poll_run by (metis prod.collapse)
  have 1: "(3::nat) = length [tweet_at ''a'' 1100, tweet_at ''b'' 1200, tweet_at ''c'' 1300]
     \<and> (3::nat) = length (filter (\<lambda>t. existing_item (fresh_session empty_db) sample_source
                                        (tw_id t) = None)
                          [tweet_at ''a'' 1100, tweet_at ''b'' 1200, tweet_at ''c'' 1300])"
    using reconciliation_counts
      [where P = first_poll and now = 2001 and s = "fresh_session empty_db"
         and source = sample_source and s_out = "fst ?tw" and f = 3 and n = 3 and u = 0
         and creds = "[(''access_token'', ascii ''k'')]" and token = "ascii ''k''"
         and tweets = "[tweet_at ''a'' 1100, tweet_at ''b'' 1200, tweet_at ''c'' 1300]"]
      tw sample_source_credentials first_poll_token first_poll_timeline
    by blast
  have 2: "(1::nat) = length (parse_feed mixed_poll (ascii ''http://example.org/feed''))"
    using reconciliation_counts
      [where P = mixed_poll and s = "fresh_session rss_db"
         and source = rss_source and s_out = "fst ?rs" and f = 1 and n = 1 and u = 0
         and feed = "ascii ''http://example.org/feed''"]
      rs rss_source_feed
    by blast
  have 3: "(2::nat) = length [None, Some sample_message]"
    using reconciliation_counts
      [where P = mixed_poll and now = 2001 and s = "fresh_session empty_db"
         and source = telegram_source and s_out = "fst ?tg" and f = 2 and n = 1 and u = 0
         and creds = "[(''bot_token'', ascii ''k'')]" and token = "ascii ''k''"
         and updates = "[None, Some sample_message]"]
      tg telegram_source_credentials mixed_poll_bot_token mixed_poll_updates
    by blast
  have 4: "(1::nat) = length [sample_post]"
    using reconciliation_counts
      [where P = mixed_poll and now = 2001 and s = "fresh_session empty_db"
         and source = facebook_source and s_out = "fst ?fb" and f = 1 and n = 1 and u = 0
         and creds = "[(''access_token'', ascii ''k'')]" and token = "ascii ''k''"
         and posts = "[sample_post]"]
      fb facebook_source_credentials mixed_poll_token mixed_poll_posts
    by blast
  have 5: "(1::nat) = length [sample_media]"
    using reconciliation_counts
      [where P = mixed_poll and now = 2001 and s = "fresh_session empty_db"
         and source = instagram_source and s_out = "fst ?ig" and f = 1 and n = 1 and u = 0
         and creds = "[(''access_token'', ascii ''k'')]" and token = "ascii ''k''"
         and media = "[sample_media]"]
      ig instagram_source_credentials mixed_poll_token mixed_poll_media
    by blast
  from 1 2 3 4 5 first_poll_twitter_run sample_source_credentials first_poll_token
    first_poll_timeline rss_poll_run rss_source_feed telegram_poll_run
    telegram_source_credentials mixed_poll_bot_token mixed_poll_updates facebook_poll_run
    facebook_source_credentials mixed_poll_token mixed_poll_posts instagram_poll_run
    instagram_source_credentials mixed_poll_media
  show ?thesis by blast
qed

section \<open>The fetch window\<close>

text \<open>
  \<open>sync_data_source\<close> assigns \<open>source.last_sync_at = start_time\<close> before it calls the
  per-type function, which then reads \<open>source.last_sync_at\<close>: the window it computes
  starts at the start of this run, and the 24-hour default is never taken.
\<close>

lemma window_start_after_touch:
  "window_start (loaded\<lparr>last_sync_at := Some start_time\<rparr>) later = start_time"
  by (simp add: window_start_def)

text \<open>
  Claim C7 at a source last synced at 1000 and synced again at 2000, with a Twitter API
  that honours \<open>start_time\<close> and holds one tweet created at 1500, after the previous sync:
  asked from 1000 the API returns the tweet, but the run asks from 2000 and records
  fetched = 0, and no ContentItem is stored.
\<close>

theorem window_starts_at_this_run:
  "last_sync_at sample_source = Some 1000
   \<and> get_user_timeline windowed_twitter (ascii ''k'') None 1000 = Inr [tweet_at ''a'' 1500]
   \<and> get_user_timeline windowed_twitter (ascii ''k'') None 2000 = Inr []
   \<and> map items_fetched (sync_logs (sync_data_source windowed_twitter 2000 2001 empty_db 1)) = [0]
   \<and> content_items (sync_data_source windowed_twitter 2000 2001 empty_db 1) = []"
  by code_simp

section \<open>Failures of a sync run\<close>







text \<open>
  A batch that repeats an external id: both tweets are added as new rows, the commit of
  \<open>sync_twitter_source\<close> raises IntegrityError, the closing commit of the task then raises
  as well, and the run leaves no SyncLog row and no ContentItem.
\<close>

lemma duplicate_batch_not_logged:
  "snd (sync_by_type duplicate_poll 2001 touched_session touched_source) = Inl IntegrityError
   \<and> sync_data_source duplicate_poll 2000 2001 empty_db 1 = empty_db
   \<and> sync_logs empty_db = []"
  by code_simp














end
